theory Spec2Isabelle
  imports Main
begin

section \<open>The QR mapping store of the storage module and its callers\<close>

text \<open>
  The development embeds the token-to-member mapping layer of the attendance application.
  From the storage module (\<^verbatim>\<open>@/lib/storage\<close>, in the sources under
  \<^verbatim>\<open>src/lib/export.ts\<close>): \<^verbatim>\<open>getCurrentEventId\<close>, \<^verbatim>\<open>setCurrentEventId\<close>,
  \<^verbatim>\<open>switchEvent\<close>, \<^verbatim>\<open>getTajneedMembers\<close>, \<^verbatim>\<open>saveQRCodeMapping\<close>,
  \<^verbatim>\<open>persistQRMappingToSupabase\<close>, \<^verbatim>\<open>getMemberIdFromQRCode\<close> and
  \<^verbatim>\<open>findMemberByQRCodeId\<close>. From the attendance page (the component
  \<^verbatim>\<open>AttendancePage\<close>, in the sources after the text of
  \<^verbatim>\<open>src/QR_MAPPING_QUICK_REFERENCE.md\<close>): the member lookup of \<^verbatim>\<open>handleQRScan\<close> and the
  check that \<^verbatim>\<open>handleSaveMember\<close> makes after a registration. The table is that of
  \<^verbatim>\<open>src/scripts/create-qr-mappings.sql\<close>.

  Conventions of the embedding.
  \<^item> The code runs in the browser (\<^verbatim>\<open>typeof window !== "undefined"\<close>), where
    \<^verbatim>\<open>localStorage\<close> is present; the items it keeps are fields of the record \<open>device\<close>.
    An item that is read with \<^verbatim>\<open>JSON.parse\<close> is absent or the text that this code
    wrote (its only writer is \<^verbatim>\<open>saveToLocalStorage\<close>, through \<^verbatim>\<open>JSON.stringify\<close>), so
    \<^verbatim>\<open>getItem\<close> and \<^verbatim>\<open>JSON.parse\<close> return; \<^verbatim>\<open>setItem\<close> may throw (the quota is
    exceeded), which is the field \<open>setItem_throws\<close>.
  \<^item> The object stored under \<^verbatim>\<open>qr_code_member_mapping\<close> is a plain JavaScript object:
    a finite map of its own properties (a missing item reads as the empty object), on top
    of the properties that every object inherits from \<^verbatim>\<open>Object.prototype\<close>.
  \<^item> A JavaScript string is truthy exactly when it is not empty; \<^verbatim>\<open>null\<close> and
    \<^verbatim>\<open>undefined\<close> are \<open>None\<close>.
  \<^item> The Supabase tables are lists of rows. What a request does is an input of the model:
    a \<open>fault\<close> says whether the store answers, answers with an \<^verbatim>\<open>error\<close> object, or
    the client call throws.
  \<^item> Waiting (\<^verbatim>\<open>setTimeout\<close>) is recorded: in the effect log of a write, and as elapsed
    milliseconds on a clock for the reads, where the remote store may differ from one
    instant to the next.
  \<^item> Logging to the console has no counterpart, except that the error which
    \<^verbatim>\<open>saveQRCodeMapping\<close> catches is kept.
\<close>

subsection \<open>Data\<close>

text \<open>The \<^verbatim>\<open>error\<close> object of a Supabase response: \<^verbatim>\<open>code\<close> and \<^verbatim>\<open>message\<close>.\<close>

record pg_error =
  err_code :: "string option"
  err_message :: "string option"

text \<open>
  A row of \<^verbatim>\<open>qr_mappings\<close> (scripts/create-qr-mappings.sql): \<^verbatim>\<open>qr_code_id TEXT PRIMARY KEY\<close>,
  \<^verbatim>\<open>member_id UUID NOT NULL\<close>, \<^verbatim>\<open>event_id UUID\<close> (nullable). The column
  \<^verbatim>\<open>created_at\<close> is never read by the code and is left out.
\<close>

record qr_row =
  qr_code_id :: string
  member_id :: string
  event_id :: "string option"

text \<open>A \<^verbatim>\<open>TajneedMember\<close>, with the attributes the lookups read.\<close>

record member =
  m_id :: string
  m_eventId :: string
  m_fullName :: string

datatype fault = Fine | Fails pg_error | Throws

text \<open>
  The remote store at one instant: its two tables, and how it answers a \<^verbatim>\<open>select\<close> on
  each. \<open>tajneed_members\<close> lists the rows in the order the query returns them
  (\<^verbatim>\<open>created_at\<close> descending).
\<close>

record remote =
  qr_mappings :: "qr_row list"
  tajneed_members :: "member list"
  qr_fault :: fault
  members_fault :: fault

text \<open>
  The device: the module constant \<^verbatim>\<open>isSupabaseConfigured\<close>, the module variable
  \<^verbatim>\<open>currentEventId\<close>, the \<^verbatim>\<open>localStorage\<close> items \<^verbatim>\<open>current_event_id\<close>,
  \<^verbatim>\<open>qr_code_member_mapping\<close> (the own properties of the parsed object) and
  \<^verbatim>\<open>tajneed_members\<close>, and whether \<^verbatim>\<open>localStorage.setItem\<close> throws.
\<close>

record device =
  isSupabaseConfigured :: bool
  currentEventId :: "string option"
  ls_current_event_id :: "string option"
  ls_qr_code_member_mapping :: "string \<rightharpoonup> string"
  ls_tajneed_members :: "member list"
  setItem_throws :: bool

datatype effect =
    LocalSet string string
  | LocalGet string
  | RemoteUpsert nat
  | RemoteSelect string "string option"
  | Sleep nat

text \<open>
  What \<^verbatim>\<open>persistQRMappingToSupabase\<close> throws: its own \<^verbatim>\<open>Error\<close>, which carries the
  attempt number and the store's error, or whatever the client call threw. What
  \<^verbatim>\<open>saveQRCodeMapping\<close> throws: the exception of \<^verbatim>\<open>localStorage.setItem\<close>.
\<close>

datatype exn = PersistFailed nat pg_error | ClientThrew | StorageThrew

text \<open>
  What \<^verbatim>\<open>getMemberIdFromQRCode\<close> returns besides \<^verbatim>\<open>null\<close>: a member id, or, read from
  the mapping object under a name it inherits, a value of \<^verbatim>\<open>Object.prototype\<close> (a
  function, or the prototype itself), which is truthy and is not a string.
\<close>

datatype resolved = MemberId string | PrototypeValue string

record persist_result =
  pr_error :: "exn option"
  pr_table :: "qr_row list"
  pr_log :: "effect list"

text \<open>
  The outcome of \<^verbatim>\<open>saveQRCodeMapping\<close>: \<open>sv_thrown\<close> is what the returned promise rejects
  with (\<open>None\<close>: it resolves), \<open>sv_warned\<close> is the error handed to \<^verbatim>\<open>console.warn\<close>.
\<close>

record save_result =
  sv_thrown :: "exn option"
  sv_warned :: "exn option"
  sv_device :: device
  sv_table :: "qr_row list"
  sv_log :: "effect list"

datatype select_result = Data "qr_row option" | SelError pg_error | SelThrew

record find_result =
  fr_member :: "member option"
  fr_device :: device
  fr_time :: nat

record scan_result =
  sc_member :: "member option"
  sc_device :: device
  sc_time :: nat
  sc_polls :: nat
  sc_waits :: "nat list"

subsection \<open>Strings\<close>

fun startsWith :: "string \<Rightarrow> string \<Rightarrow> bool" where
  "startsWith s [] = True"
| "startsWith [] (c # cs) = False"
| "startsWith (d # ds) (c # cs) = (d = c \<and> startsWith ds cs)"

text \<open>\<^verbatim>\<open>String.prototype.includes\<close>.\<close>

fun str_includes :: "string \<Rightarrow> string \<Rightarrow> bool" where
  "str_includes [] sub = (sub = [])"
| "str_includes (c # cs) sub = (startsWith (c # cs) sub \<or> str_includes cs sub)"

text \<open>\<^verbatim>\<open>error.message?.includes(sub)\<close>: \<^verbatim>\<open>undefined\<close>, hence falsy, without a message.\<close>

definition message_includes :: "pg_error \<Rightarrow> string \<Rightarrow> bool" where
  "message_includes e sub =
     (case err_message e of None \<Rightarrow> False | Some m \<Rightarrow> str_includes m sub)"

subsection \<open>The mapping object\<close>

text \<open>The names of the properties of \<^verbatim>\<open>Object.prototype\<close>.\<close>

definition object_prototype_names :: "string list" where
  "object_prototype_names =
     [''constructor'', ''__defineGetter__'', ''__defineSetter__'', ''hasOwnProperty'',
      ''__lookupGetter__'', ''__lookupSetter__'', ''isPrototypeOf'', ''propertyIsEnumerable'',
      ''toString'', ''valueOf'', ''__proto__'', ''toLocaleString'']"

text \<open>
  \<^verbatim>\<open>mappings[qrCodeId] = memberId\<close> with a string value. Under the name
  \<^verbatim>\<open>__proto__\<close> the assignment reaches the inherited setter, which ignores a string,
  unless the object has an own property of that name (\<^verbatim>\<open>JSON.parse\<close> can make one).
  Under every other name it sets an own property.
\<close>

definition js_assign :: "(string \<rightharpoonup> string) \<Rightarrow> string \<Rightarrow> string \<Rightarrow> (string \<rightharpoonup> string)" where
  "js_assign m k v = (if k = ''__proto__'' \<and> m k = None then m else m(k \<mapsto> v))"

subsection \<open>The current event\<close>

definition getCurrentEventId :: "device \<Rightarrow> string \<times> device" where
  "getCurrentEventId d =
     (case currentEventId d of
        Some e \<Rightarrow>
          if e \<noteq> [] then (e, d)
          else (case ls_current_event_id d of
                  Some s \<Rightarrow> if s \<noteq> [] then (s, d\<lparr>currentEventId := Some s\<rparr>) else ([], d)
                | None \<Rightarrow> ([], d))
      | None \<Rightarrow>
          (case ls_current_event_id d of
             Some s \<Rightarrow> if s \<noteq> [] then (s, d\<lparr>currentEventId := Some s\<rparr>) else ([], d)
           | None \<Rightarrow> ([], d)))"

text \<open>The write to \<^verbatim>\<open>localStorage\<close> is inside \<^verbatim>\<open>try\<close>: a throwing \<^verbatim>\<open>setItem\<close> is logged.\<close>

definition setCurrentEventId :: "string \<Rightarrow> device \<Rightarrow> device" where
  "setCurrentEventId eventId d =
     d\<lparr>currentEventId := Some eventId,
       ls_current_event_id := (if setItem_throws d then ls_current_event_id d else Some eventId)\<rparr>"

definition switchEvent :: "string \<Rightarrow> device \<Rightarrow> device" where
  "switchEvent eventId d = setCurrentEventId eventId d"

subsection \<open>The retrying writer\<close>

definition MAX_ATTEMPTS :: nat where
  "MAX_ATTEMPTS = 3"

definition BASE_DELAY :: nat where
  "BASE_DELAY = 100"

text \<open>
  \<^verbatim>\<open>BASE_DELAY * Math.pow(2, attempt - 1)\<close>. The attempts are numbered from 1; at 0 the
  JavaScript power is one half.
\<close>

definition backoff :: "nat \<Rightarrow> nat" where
  "backoff attempt =
     (if attempt = 0 then BASE_DELAY div 2 else BASE_DELAY * 2 ^ (attempt - 1))"

definition isRetryable :: "pg_error \<Rightarrow> bool" where
  "isRetryable e =
     (err_code e = Some ''PGRST301'' \<or>
      err_code e = Some ''42P01'' \<or>
      message_includes e ''connection'' \<or>
      message_includes e ''timeout'' \<or>
      message_includes e ''temporarily unavailable'')"

text \<open>The payload: \<^verbatim>\<open>event_id: eventId || null\<close>.\<close>

definition payload :: "string \<Rightarrow> string \<Rightarrow> string \<Rightarrow> qr_row" where
  "payload qrCodeId memberId eventId =
     \<lparr>qr_code_id = qrCodeId, member_id = memberId,
      event_id = (if eventId \<noteq> [] then Some eventId else None)\<rparr>"

text \<open>
  \<^verbatim>\<open>.upsert(payload, { onConflict: "qr_code_id" })\<close>: a row with the payload's
  \<^verbatim>\<open>qr_code_id\<close> takes the payload's columns, and without one the payload is inserted.
\<close>

definition upsert :: "qr_row \<Rightarrow> qr_row list \<Rightarrow> qr_row list" where
  "upsert p tbl =
     (if \<exists>x \<in> set tbl. qr_code_id x = qr_code_id p
      then map (\<lambda>x. if qr_code_id x = qr_code_id p then p else x) tbl
      else tbl @ [p])"

text \<open>
  \<open>sb\<close> is whether the \<^verbatim>\<open>supabase\<close> client exists; \<open>faults n\<close> is what the store does
  with attempt \<open>n\<close>. A rejected or thrown request leaves the table as it was. The
  \<^verbatim>\<open>catch\<close> block rethrows what reaches it, so an exception of the client call is not
  retried. The recursion ends because a retry needs \<^verbatim>\<open>attempt < MAX_ATTEMPTS\<close>.
\<close>

function persistQRMappingToSupabase ::
  "bool \<Rightarrow> (nat \<Rightarrow> fault) \<Rightarrow> string \<Rightarrow> string \<Rightarrow> string \<Rightarrow> nat \<Rightarrow> qr_row list
     \<Rightarrow> persist_result" where
  "persistQRMappingToSupabase sb faults qrCodeId memberId eventId attempt tbl =
     (if \<not> sb then \<lparr>pr_error = None, pr_table = tbl, pr_log = []\<rparr>
      else
        (case faults attempt of
           Fine \<Rightarrow>
             \<lparr>pr_error = None,
              pr_table = upsert (payload qrCodeId memberId eventId) tbl,
              pr_log = [RemoteUpsert attempt]\<rparr>
         | Throws \<Rightarrow>
             \<lparr>pr_error = Some ClientThrew, pr_table = tbl, pr_log = [RemoteUpsert attempt]\<rparr>
         | Fails e \<Rightarrow>
             if isRetryable e \<and> attempt < MAX_ATTEMPTS
             then
               (let r = persistQRMappingToSupabase sb faults qrCodeId memberId eventId
                          (attempt + 1) tbl
                in r\<lparr>pr_log := RemoteUpsert attempt # Sleep (backoff attempt) # pr_log r\<rparr>)
             else
               \<lparr>pr_error = Some (PersistFailed attempt e), pr_table = tbl,
                pr_log = [RemoteUpsert attempt]\<rparr>))"
  by pat_completeness auto
termination
  by (relation "measure (\<lambda>(sb, faults, q, m, e, attempt, tbl). MAX_ATTEMPTS - attempt)")
     (auto simp: MAX_ATTEMPTS_def)

text \<open>
  The local write comes first and is outside \<^verbatim>\<open>try\<close>: when \<^verbatim>\<open>setItem\<close> throws, the
  promise rejects, nothing is stored and nothing is sent. Otherwise, with Supabase
  configured, the remote write is awaited inside \<^verbatim>\<open>try\<close>; what it throws is caught and
  passed to \<^verbatim>\<open>console.warn\<close>.
\<close>

definition saveQRCodeMapping ::
  "(nat \<Rightarrow> fault) \<Rightarrow> device \<Rightarrow> qr_row list \<Rightarrow> string \<Rightarrow> string \<Rightarrow> save_result" where
  "saveQRCodeMapping faults d tbl qrCodeId memberId =
     (let mappings = js_assign (ls_qr_code_member_mapping d) qrCodeId memberId;
          d1 = d\<lparr>ls_qr_code_member_mapping := mappings\<rparr>
      in if setItem_throws d
         then \<lparr>sv_thrown = Some StorageThrew, sv_warned = None, sv_device = d, sv_table = tbl,
               sv_log = []\<rparr>
         else if isSupabaseConfigured d1
         then
           (case getCurrentEventId d1 of
              (eventId, d2) \<Rightarrow>
                (let r = persistQRMappingToSupabase (isSupabaseConfigured d2) faults
                           qrCodeId memberId eventId 1 tbl
                 in (case pr_error r of
                       None \<Rightarrow>
                         \<lparr>sv_thrown = None, sv_warned = None, sv_device = d2,
                          sv_table = pr_table r,
                          sv_log = LocalSet qrCodeId memberId # pr_log r\<rparr>
                     | Some err \<Rightarrow>
                         \<lparr>sv_thrown = None, sv_warned = Some err, sv_device = d2,
                          sv_table = pr_table r,
                          sv_log = LocalSet qrCodeId memberId # pr_log r\<rparr>)))
         else
           \<lparr>sv_thrown = None, sv_warned = None, sv_device = d1, sv_table = tbl,
            sv_log = [LocalSet qrCodeId memberId]\<rparr>)"

subsection \<open>The resolution chain\<close>

text \<open>
  The query of \<^verbatim>\<open>getMemberIdFromQRCode\<close>: \<^verbatim>\<open>.eq("qr_code_id", qrCodeId)\<close>, then
  \<^verbatim>\<open>.eq("event_id", eventId)\<close> when the event id is truthy, then \<^verbatim>\<open>.maybeSingle()\<close>,
  which answers with an error when more than one row matches.
\<close>

definition qr_filter :: "string \<Rightarrow> string \<Rightarrow> qr_row \<Rightarrow> bool" where
  "qr_filter qrCodeId eventId x =
     (qr_code_id x = qrCodeId \<and> (eventId = [] \<or> event_id x = Some eventId))"

definition qr_maybeSingle :: "remote \<Rightarrow> string \<Rightarrow> string \<Rightarrow> select_result" where
  "qr_maybeSingle r qrCodeId eventId =
     (case qr_fault r of
        Fails e \<Rightarrow> SelError e
      | Throws \<Rightarrow> SelThrew
      | Fine \<Rightarrow>
          (case filter (qr_filter qrCodeId eventId) (qr_mappings r) of
             [] \<Rightarrow> Data None
           | [x] \<Rightarrow> Data (Some x)
           | x # y # zs \<Rightarrow>
               SelError \<lparr>err_code = Some ''PGRST116'',
                         err_message = Some ''JSON object requested, multiple (or no) rows returned''\<rparr>))"

text \<open>
  The local fallback: \<^verbatim>\<open>mappings[qrCodeId] || null\<close>. An own property is a string, and
  the empty string is falsy. Without an own property the name is looked up in
  \<^verbatim>\<open>Object.prototype\<close>, whose values are truthy.
\<close>

definition localLookup :: "device \<Rightarrow> string \<Rightarrow> resolved option" where
  "localLookup d qrCodeId =
     (case ls_qr_code_member_mapping d qrCodeId of
        Some v \<Rightarrow> if v \<noteq> [] then Some (MemberId v) else None
      | None \<Rightarrow>
          if qrCodeId \<in> set object_prototype_names then Some (PrototypeValue qrCodeId)
          else None)"

definition getMemberIdFromQRCode ::
  "device \<Rightarrow> remote \<Rightarrow> string \<Rightarrow> resolved option \<times> device \<times> effect list" where
  "getMemberIdFromQRCode d r qrCodeId =
     (if isSupabaseConfigured d
      then
        (case getCurrentEventId d of
           (eventId, d1) \<Rightarrow>
             (let sel = RemoteSelect qrCodeId (if eventId \<noteq> [] then Some eventId else None)
              in (case qr_maybeSingle r qrCodeId eventId of
                    Data (Some row) \<Rightarrow>
                      if member_id row \<noteq> [] then (Some (MemberId (member_id row)), d1, [sel])
                      else (localLookup d1 qrCodeId, d1, [sel, LocalGet qrCodeId])
                  | Data None \<Rightarrow> (localLookup d1 qrCodeId, d1, [sel, LocalGet qrCodeId])
                  | SelError e \<Rightarrow> (localLookup d1 qrCodeId, d1, [sel, LocalGet qrCodeId])
                  | SelThrew \<Rightarrow> (localLookup d1 qrCodeId, d1, [sel, LocalGet qrCodeId]))))
      else (localLookup d qrCodeId, d, [LocalGet qrCodeId]))"

subsection \<open>Members of the current event\<close>

definition getTajneedMembers :: "device \<Rightarrow> remote \<Rightarrow> member list \<times> device" where
  "getTajneedMembers d r =
     (case getCurrentEventId d of
        (eventId, d1) \<Rightarrow>
          if eventId = [] then ([], d1)
          else if \<not> isSupabaseConfigured d1
          then (filter (\<lambda>m. m_eventId m = eventId) (ls_tajneed_members d1), d1)
          else
            (case members_fault r of
               Fine \<Rightarrow> (filter (\<lambda>m. m_eventId m = eventId) (tajneed_members r), d1)
             | Fails e \<Rightarrow> ([], d1)
             | Throws \<Rightarrow> ([], d1)))"

text \<open>
  \<open>env u\<close> is the remote store \<open>u\<close> milliseconds after the clock started. A request is
  answered by the store of the instant it is made; only the waits advance the clock.
  \<^verbatim>\<open>getMemberIdFromQRCode\<close> returns a truthy value or \<^verbatim>\<open>null\<close>, so the test
  \<^verbatim>\<open>if (mappedId)\<close> is the case distinction on its result; \<^verbatim>\<open>m.id === mappedId\<close> holds
  for no member when the value is not a string.
\<close>

definition findMemberByQRCodeId ::
  "device \<Rightarrow> (nat \<Rightarrow> remote) \<Rightarrow> nat \<Rightarrow> string \<Rightarrow> find_result" where
  "findMemberByQRCodeId d env t qrCodeId =
     (case getTajneedMembers d (env t) of
        (members, d1) \<Rightarrow>
          (case find (\<lambda>m. m_id m = qrCodeId) members of
             Some m \<Rightarrow> \<lparr>fr_member = Some m, fr_device = d1, fr_time = t\<rparr>
           | None \<Rightarrow>
               (case getMemberIdFromQRCode d1 (env t) qrCodeId of
                  (Some mappedId, d2, lg) \<Rightarrow>
                    (case find (\<lambda>m. MemberId (m_id m) = mappedId) members of
                       Some m \<Rightarrow> \<lparr>fr_member = Some m, fr_device = d2, fr_time = t\<rparr>
                     | None \<Rightarrow>
                         (case getTajneedMembers d2 (env (t + 200)) of
                            (members2, d3) \<Rightarrow>
                              \<lparr>fr_member = find (\<lambda>m. MemberId (m_id m) = mappedId) members2,
                               fr_device = d3, fr_time = t + 200\<rparr>))
                | (None, d2, lg) \<Rightarrow>
                    (case getTajneedMembers d2 (env (t + 200)) of
                       (members2, d3) \<Rightarrow>
                         \<lparr>fr_member = find (\<lambda>m. m_id m = qrCodeId) members2,
                          fr_device = d3, fr_time = t + 200\<rparr>))))"

text \<open>
  The lookup of \<^verbatim>\<open>handleQRScan\<close> (attendance page): \<^verbatim>\<open>findMemberByQRCodeId\<close>, again
  after 300 ms when nothing was found, and once more after 500 ms.
\<close>

definition handleQRScan :: "device \<Rightarrow> (nat \<Rightarrow> remote) \<Rightarrow> nat \<Rightarrow> string \<Rightarrow> scan_result" where
  "handleQRScan d env t scannedText =
     (let f1 = findMemberByQRCodeId d env t scannedText
      in if fr_member f1 \<noteq> None
         then \<lparr>sc_member = fr_member f1, sc_device = fr_device f1, sc_time = fr_time f1,
               sc_polls = 1, sc_waits = []\<rparr>
         else
           (let f2 = findMemberByQRCodeId (fr_device f1) env (fr_time f1 + 300) scannedText
            in if fr_member f2 \<noteq> None
               then \<lparr>sc_member = fr_member f2, sc_device = fr_device f2, sc_time = fr_time f2,
                     sc_polls = 2, sc_waits = [300]\<rparr>
               else
                 (let f3 = findMemberByQRCodeId (fr_device f2) env (fr_time f2 + 500) scannedText
                  in \<lparr>sc_member = fr_member f3, sc_device = fr_device f3, sc_time = fr_time f3,
                      sc_polls = 3, sc_waits = [300, 500]\<rparr>)))"

text \<open>
  The check that \<^verbatim>\<open>handleSaveMember\<close> (attendance page) makes once the member and its
  mapping are saved: wait 300 ms, \<^verbatim>\<open>findMemberByQRCodeId\<close>, and when nothing was found wait
  500 ms and look once more. The handler logs the outcome and goes on either way.
\<close>

definition handleSaveMember_verify ::
  "device \<Rightarrow> (nat \<Rightarrow> remote) \<Rightarrow> nat \<Rightarrow> string \<Rightarrow> scan_result" where
  "handleSaveMember_verify d env t memberDataId =
     (let verifyMember = findMemberByQRCodeId d env (t + 300) memberDataId
      in if fr_member verifyMember \<noteq> None
         then \<lparr>sc_member = fr_member verifyMember, sc_device = fr_device verifyMember,
               sc_time = fr_time verifyMember, sc_polls = 1, sc_waits = [300]\<rparr>
         else
           (let retryVerify = findMemberByQRCodeId (fr_device verifyMember) env
                                (fr_time verifyMember + 500) memberDataId
            in \<lparr>sc_member = fr_member retryVerify, sc_device = fr_device retryVerify,
                sc_time = fr_time retryVerify, sc_polls = 2, sc_waits = [300, 500]\<rparr>))"

subsection \<open>Reading an effect log\<close>

fun delays :: "effect list \<Rightarrow> nat list" where
  "delays [] = []"
| "delays (Sleep n # es) = n # delays es"
| "delays (LocalSet k v # es) = delays es"
| "delays (LocalGet k # es) = delays es"
| "delays (RemoteUpsert a # es) = delays es"
| "delays (RemoteSelect k f # es) = delays es"

fun attempts :: "effect list \<Rightarrow> nat" where
  "attempts [] = 0"
| "attempts (RemoteUpsert a # es) = Suc (attempts es)"
| "attempts (Sleep n # es) = attempts es"
| "attempts (LocalSet k v # es) = attempts es"
| "attempts (LocalGet k # es) = attempts es"
| "attempts (RemoteSelect k f # es) = attempts es"

subsection \<open>Example devices, stores and errors\<close>

text \<open>A device with Supabase configured, event A selected and nothing in its local cache.\<close>

definition deviceA :: device where
  "deviceA =
     \<lparr>isSupabaseConfigured = True, currentEventId = Some ''eventA'',
      ls_current_event_id = Some ''eventA'', ls_qr_code_member_mapping = Map.empty,
      ls_tajneed_members = [], setItem_throws = False\<rparr>"

text \<open>The same device without Supabase, and the same device with its storage quota used up.\<close>

definition deviceLocal :: device where
  "deviceLocal = deviceA\<lparr>isSupabaseConfigured := False\<rparr>"

definition deviceFull :: device where
  "deviceFull = deviceA\<lparr>setItem_throws := True\<rparr>"

text \<open>A remote store that answers every \<^verbatim>\<open>select\<close>.\<close>

definition healthy :: "qr_row list \<Rightarrow> member list \<Rightarrow> remote" where
  "healthy tbl ms =
     \<lparr>qr_mappings = tbl, tajneed_members = ms, qr_fault = Fine, members_fault = Fine\<rparr>"

definition timeout_error :: pg_error where
  "timeout_error = \<lparr>err_code = None, err_message = Some ''upstream request timeout''\<rparr>"

definition permission_error :: pg_error where
  "permission_error =
     \<lparr>err_code = Some ''42501'',
      err_message = Some ''new row violates row-level security policy for table qr_mappings''\<rparr>"

definition undefined_table_error :: pg_error where
  "undefined_table_error =
     \<lparr>err_code = Some ''42P01'',
      err_message = Some ''relation public.qr_mappings does not exist''\<rparr>"

text \<open>The store treats every attempt the same way.\<close>

definition always_fault :: "fault \<Rightarrow> nat \<Rightarrow> fault" where
  "always_fault f attempt = f"

text \<open>
  The same token registered under two events on one device: first in event A for member
  \<open>m1\<close>, then, after switching to event B, for member \<open>m2\<close>. The store accepts both
  writes.
\<close>

definition persisted_in_A :: save_result where
  "persisted_in_A = saveQRCodeMapping (always_fault Fine) deviceA [] ''X'' ''m1''"

definition persisted_in_B :: save_result where
  "persisted_in_B =
     saveQRCodeMapping (always_fault Fine) (switchEvent ''eventB'' (sv_device persisted_in_A))
       (sv_table persisted_in_A) ''X'' ''m2''"

text \<open>
  A token that another device registered for \<open>m-old\<close> in event A, and a new registration
  of it for \<open>m-new\<close> whose remote write times out on every attempt, or is denied.
\<close>

definition stale_table :: "qr_row list" where
  "stale_table = [\<lparr>qr_code_id = ''X'', member_id = ''m-old'', event_id = Some ''eventA''\<rparr>]"

definition failed_rewrite :: save_result where
  "failed_rewrite =
     saveQRCodeMapping (always_fault (Fails timeout_error)) deviceA stale_table ''X'' ''m-new''"



text \<open>
  Registrations on the device without Supabase: with an empty member id, and under the
  token \<^verbatim>\<open>__proto__\<close>. And a registration on the device whose quota is used up.
\<close>

definition saved_empty :: save_result where
  "saved_empty = saveQRCodeMapping (always_fault Fine) deviceLocal [] ''X'' []"

definition saved_proto :: save_result where
  "saved_proto = saveQRCodeMapping (always_fault Fine) deviceLocal [] ''__proto__'' ''m1''"

definition saved_over_quota :: save_result where
  "saved_over_quota = saveQRCodeMapping (always_fault Fine) deviceFull [] ''X'' ''m1''"



text \<open>
  A store where the mapping of token \<open>X\<close> to member \<open>m-42\<close> becomes visible 100 ms after
  the clock starts; the member itself is visible throughout.
\<close>

definition member42 :: member where
  "member42 = \<lparr>m_id = ''m-42'', m_eventId = ''eventA'', m_fullName = ''Amina''\<rparr>"

definition lagging_store :: "nat \<Rightarrow> remote" where
  "lagging_store u =
     healthy (if u < 100 then []
              else [\<lparr>qr_code_id = ''X'', member_id = ''m-42'', event_id = Some ''eventA''\<rparr>])
       [member42]"

text \<open>A store that does not change.\<close>

definition steady :: "remote \<Rightarrow> nat \<Rightarrow> remote" where
  "steady r u = r"

text \<open>
  Token \<open>X\<close> is the id of a member of event A, and it is also mapped, in the store and in
  the cache of the device, to member \<open>m-77\<close>, who belongs to event B.
\<close>

definition memberX :: member where
  "memberX = \<lparr>m_id = ''X'', m_eventId = ''eventA'', m_fullName = ''Bilal''\<rparr>"

definition member77 :: member where
  "member77 = \<lparr>m_id = ''m-77'', m_eventId = ''eventB'', m_fullName = ''Chidi''\<rparr>"

definition deviceA_cached :: device where
  "deviceA_cached = deviceA\<lparr>ls_qr_code_member_mapping := [''X'' \<mapsto> ''m-77'']\<rparr>"

definition crossed_store :: remote where
  "crossed_store =
     healthy [\<lparr>qr_code_id = ''X'', member_id = ''m-77'', event_id = Some ''eventB''\<rparr>]
       [memberX, member77]"

text \<open>A store where token \<open>X\<close> is mapped to \<open>m-77\<close> of event B and is nobody's id.\<close>

definition foreign_store :: remote where
  "foreign_store =
     healthy [\<lparr>qr_code_id = ''X'', member_id = ''m-77'', event_id = Some ''eventB''\<rparr>]
       [member77]"

section \<open>Properties\<close>

declare persistQRMappingToSupabase.simps [simp del]

subsection \<open>The retrying writer, one attempt at a time\<close>

text \<open>
  Each lemma is one branch of \<^verbatim>\<open>persistQRMappingToSupabase\<close> with the client present.
\<close>

lemma persist_Fine:
  "faults a = Fine \<Longrightarrow>
   persistQRMappingToSupabase True faults q m ev a tbl =
     \<lparr>pr_error = None, pr_table = upsert (payload q m ev) tbl, pr_log = [RemoteUpsert a]\<rparr>"
  by (subst persistQRMappingToSupabase.simps) simp

lemma persist_Throws:
  "faults a = Throws \<Longrightarrow>
   persistQRMappingToSupabase True faults q m ev a tbl =
     \<lparr>pr_error = Some ClientThrew, pr_table = tbl, pr_log = [RemoteUpsert a]\<rparr>"
  by (subst persistQRMappingToSupabase.simps) simp

lemma persist_Fails_stop:
  "faults a = Fails e \<Longrightarrow> \<not> (isRetryable e \<and> a < MAX_ATTEMPTS) \<Longrightarrow>
   persistQRMappingToSupabase True faults q m ev a tbl =
     \<lparr>pr_error = Some (PersistFailed a e), pr_table = tbl, pr_log = [RemoteUpsert a]\<rparr>"
  by (subst persistQRMappingToSupabase.simps) auto

lemma persist_Fails_retry:
  "faults a = Fails e \<Longrightarrow> isRetryable e \<Longrightarrow> a < MAX_ATTEMPTS \<Longrightarrow>
   persistQRMappingToSupabase True faults q m ev a tbl =
     (persistQRMappingToSupabase True faults q m ev (Suc a) tbl)
       \<lparr>pr_log := RemoteUpsert a # Sleep (backoff a) #
          pr_log (persistQRMappingToSupabase True faults q m ev (Suc a) tbl)\<rparr>"
  by (subst persistQRMappingToSupabase.simps) (simp add: Let_def)


lemma persist_log_effects:
  "e \<in> set (pr_log (persistQRMappingToSupabase True faults q m ev a tbl)) \<Longrightarrow>
   (\<exists>n. e = RemoteUpsert n) \<or> (\<exists>n. e = Sleep n)"
proof (induction "MAX_ATTEMPTS - a" arbitrary: a e)
  case 0
  then have na: "\<not> a < MAX_ATTEMPTS" by simp
  show ?case
  proof (cases "faults a")
    case Fine
    with "0.prems" show ?thesis by (simp add: persist_Fine)
  next
    case Throws
    with "0.prems" show ?thesis by (simp add: persist_Throws)
  next
    case (Fails x)
    with na "0.prems" show ?thesis by (simp add: persist_Fails_stop)
  qed
next
  case (Suc n)
  then have lt: "a < MAX_ATTEMPTS" and n: "n = MAX_ATTEMPTS - Suc a" by simp_all
  show ?case
  proof (cases "faults a")
    case Fine
    with Suc.prems show ?thesis by (simp add: persist_Fine)
  next
    case Throws
    with Suc.prems show ?thesis by (simp add: persist_Throws)
  next
    case (Fails x)
    show ?thesis
    proof (cases "isRetryable x")
      case False
      with Fails Suc.prems show ?thesis by (simp add: persist_Fails_stop)
    next
      case True
      from Suc.prems Fails True lt
      have "e = RemoteUpsert a \<or> e = Sleep (backoff a) \<or>
            e \<in> set (pr_log (persistQRMappingToSupabase True faults q m ev (Suc a) tbl))"
        by (simp add: persist_Fails_retry)
      with Suc.hyps(1) [OF n] show ?thesis by blast
    qed
  qed
qed

lemma persist_exhaust:
  assumes "faults 1 = Fails e1" "isRetryable e1" "faults 2 = Fails e2" "isRetryable e2"
    "faults 3 = Fails e3"
  shows "persistQRMappingToSupabase True faults q m ev 1 tbl =
     \<lparr>pr_error = Some (PersistFailed 3 e3), pr_table = tbl,
      pr_log = [RemoteUpsert 1, Sleep 100, RemoteUpsert 2, Sleep 200, RemoteUpsert 3]\<rparr>"
proof -
  have n2: "Suc 1 = 2" and n3: "Suc 2 = 3" by simp_all
  have s3: "persistQRMappingToSupabase True faults q m ev 3 tbl =
     \<lparr>pr_error = Some (PersistFailed 3 e3), pr_table = tbl, pr_log = [RemoteUpsert 3]\<rparr>"
    by (rule persist_Fails_stop [where e = e3]) (use assms in \<open>simp_all add: MAX_ATTEMPTS_def\<close>)
  have "persistQRMappingToSupabase True faults q m ev 2 tbl =
     (persistQRMappingToSupabase True faults q m ev (Suc 2) tbl)
       \<lparr>pr_log := RemoteUpsert 2 # Sleep (backoff 2) #
          pr_log (persistQRMappingToSupabase True faults q m ev (Suc 2) tbl)\<rparr>"
    by (rule persist_Fails_retry [where e = e2]) (use assms in \<open>simp_all add: MAX_ATTEMPTS_def\<close>)
  then have s2: "persistQRMappingToSupabase True faults q m ev 2 tbl =
     \<lparr>pr_error = Some (PersistFailed 3 e3), pr_table = tbl,
      pr_log = [RemoteUpsert 2, Sleep 200, RemoteUpsert 3]\<rparr>"
    unfolding n3 s3 by (simp add: backoff_def BASE_DELAY_def)
  have "persistQRMappingToSupabase True faults q m ev 1 tbl =
     (persistQRMappingToSupabase True faults q m ev (Suc 1) tbl)
       \<lparr>pr_log := RemoteUpsert 1 # Sleep (backoff 1) #
          pr_log (persistQRMappingToSupabase True faults q m ev (Suc 1) tbl)\<rparr>"
    by (rule persist_Fails_retry [where e = e1]) (use assms in \<open>simp_all add: MAX_ATTEMPTS_def\<close>)
  then show ?thesis
    unfolding n2 s2 by (simp add: backoff_def BASE_DELAY_def)
qed

lemma persist_never_fine:
  assumes "faults 1 \<noteq> Fine" "faults 2 \<noteq> Fine" "faults 3 \<noteq> Fine"
  shows "pr_error (persistQRMappingToSupabase True faults q m ev 1 tbl) \<noteq> None"
proof -
  have step: "pr_error (persistQRMappingToSupabase True faults q m ev a tbl) \<noteq> None"
    if "faults a \<noteq> Fine"
      "a < MAX_ATTEMPTS \<Longrightarrow> pr_error (persistQRMappingToSupabase True faults q m ev (Suc a) tbl) \<noteq> None"
    for a
  proof (cases "faults a")
    case Fine
    with that show ?thesis by simp
  next
    case Throws
    then show ?thesis by (simp add: persist_Throws)
  next
    case (Fails e)
    show ?thesis
    proof (cases "isRetryable e \<and> a < MAX_ATTEMPTS")
      case False
      with Fails show ?thesis by (simp add: persist_Fails_stop)
    next
      case True
      with Fails that(2) show ?thesis by (simp add: persist_Fails_retry)
    qed
  qed
  have 3: "pr_error (persistQRMappingToSupabase True faults q m ev 3 tbl) \<noteq> None"
    by (rule step) (use assms in \<open>simp_all add: MAX_ATTEMPTS_def\<close>)
  have 2: "pr_error (persistQRMappingToSupabase True faults q m ev 2 tbl) \<noteq> None"
    by (rule step) (use assms 3 in \<open>simp_all add: MAX_ATTEMPTS_def\<close>)
  have "pr_error (persistQRMappingToSupabase True faults q m ev (Suc 0) tbl) \<noteq> None"
    by (rule step) (use assms 2 in \<open>simp_all add: MAX_ATTEMPTS_def numeral_2_eq_2\<close>)
  then show ?thesis by simp
qed

subsection \<open>The current event\<close>

lemma gce_fields:
  "getCurrentEventId d = (ev, d') \<Longrightarrow>
     isSupabaseConfigured d' = isSupabaseConfigured d \<and>
     ls_current_event_id d' = ls_current_event_id d \<and>
     ls_qr_code_member_mapping d' = ls_qr_code_member_mapping d \<and>
     ls_tajneed_members d' = ls_tajneed_members d \<and>
     setItem_throws d' = setItem_throws d"
  by (auto simp: getCurrentEventId_def split: option.splits if_splits)

lemma gce_again: "getCurrentEventId d = (ev, d') \<Longrightarrow> getCurrentEventId d' = (ev, d')"
  by (auto simp: getCurrentEventId_def split: option.splits if_splits)

lemma gce_map_update:
  "getCurrentEventId d = (ev, d') \<Longrightarrow>
   getCurrentEventId (d\<lparr>ls_qr_code_member_mapping := f\<rparr>) =
     (ev, d'\<lparr>ls_qr_code_member_mapping := f\<rparr>)"
  by (auto simp: getCurrentEventId_def split: option.splits if_splits)

lemma gce_snd_again:
  "getCurrentEventId (snd (getCurrentEventId d)) =
     (fst (getCurrentEventId d), snd (getCurrentEventId d))"
  using gce_again [of d "fst (getCurrentEventId d)" "snd (getCurrentEventId d)"] by simp

lemma gce_snd_fields:
  "isSupabaseConfigured (snd (getCurrentEventId d)) = isSupabaseConfigured d"
  "ls_qr_code_member_mapping (snd (getCurrentEventId d)) = ls_qr_code_member_mapping d"
  "ls_tajneed_members (snd (getCurrentEventId d)) = ls_tajneed_members d"
  using gce_fields [of d "fst (getCurrentEventId d)" "snd (getCurrentEventId d)"] by simp_all

subsection \<open>What saveQRCodeMapping leaves behind\<close>

lemma save_quota:
  assumes "setItem_throws d"
  shows "saveQRCodeMapping faults d tbl q m =
     \<lparr>sv_thrown = Some StorageThrew, sv_warned = None, sv_device = d, sv_table = tbl,
      sv_log = []\<rparr>"
  using assms by (simp add: saveQRCodeMapping_def Let_def)

lemma save_configured:
  assumes "getCurrentEventId d = (ev, d')" "isSupabaseConfigured d" "\<not> setItem_throws d"
  shows "saveQRCodeMapping faults d tbl q m =
     \<lparr>sv_thrown = None,
      sv_warned = pr_error (persistQRMappingToSupabase True faults q m ev 1 tbl),
      sv_device = d'\<lparr>ls_qr_code_member_mapping := js_assign (ls_qr_code_member_mapping d) q m\<rparr>,
      sv_table = pr_table (persistQRMappingToSupabase True faults q m ev 1 tbl),
      sv_log = LocalSet q m # pr_log (persistQRMappingToSupabase True faults q m ev 1 tbl)\<rparr>"
  using assms gce_fields [OF assms(1)]
  by (simp add: saveQRCodeMapping_def Let_def
      gce_map_update [OF assms(1)] split: option.splits)

lemma save_local_only:
  assumes "\<not> isSupabaseConfigured d" "\<not> setItem_throws d"
  shows "saveQRCodeMapping faults d tbl q m =
     \<lparr>sv_thrown = None, sv_warned = None,
      sv_device = d\<lparr>ls_qr_code_member_mapping := js_assign (ls_qr_code_member_mapping d) q m\<rparr>,
      sv_table = tbl, sv_log = [LocalSet q m]\<rparr>"
  using assms by (simp add: saveQRCodeMapping_def Let_def)

lemma save_cases [case_names quota local remote]:
  obtains
    "setItem_throws d"
    "saveQRCodeMapping faults d tbl q m =
      \<lparr>sv_thrown = Some StorageThrew, sv_warned = None, sv_device = d, sv_table = tbl,
       sv_log = []\<rparr>"
  | "\<not> setItem_throws d" "\<not> isSupabaseConfigured d"
    "saveQRCodeMapping faults d tbl q m =
      \<lparr>sv_thrown = None, sv_warned = None,
       sv_device = d\<lparr>ls_qr_code_member_mapping := js_assign (ls_qr_code_member_mapping d) q m\<rparr>,
       sv_table = tbl, sv_log = [LocalSet q m]\<rparr>"
  | ev d' where "\<not> setItem_throws d" "isSupabaseConfigured d" "getCurrentEventId d = (ev, d')"
    "saveQRCodeMapping faults d tbl q m =
      \<lparr>sv_thrown = None,
       sv_warned = pr_error (persistQRMappingToSupabase True faults q m ev 1 tbl),
       sv_device = d'\<lparr>ls_qr_code_member_mapping := js_assign (ls_qr_code_member_mapping d) q m\<rparr>,
       sv_table = pr_table (persistQRMappingToSupabase True faults q m ev 1 tbl),
       sv_log = LocalSet q m # pr_log (persistQRMappingToSupabase True faults q m ev 1 tbl)\<rparr>"
proof (cases "setItem_throws d")
  case True
  from that(1) [OF True save_quota [OF True]] show ?thesis .
next
  case nt: False
  show ?thesis
  proof (cases "isSupabaseConfigured d")
    case False
    from that(2) [OF nt False save_local_only [OF False nt]] show ?thesis .
  next
    case True
    obtain ev d' where g: "getCurrentEventId d = (ev, d')" by (cases "getCurrentEventId d")
    from that(3) [OF nt True g save_configured [OF g True nt]] show ?thesis .
  qed
qed

lemma save_device_map:
  "\<not> setItem_throws d \<Longrightarrow>
   ls_qr_code_member_mapping (sv_device (saveQRCodeMapping faults d tbl q m)) =
     js_assign (ls_qr_code_member_mapping d) q m"
  by (cases rule: save_cases [where d = d and faults = faults and tbl = tbl and q = q and m = m]) simp_all

lemma save_device_conf:
  "isSupabaseConfigured (sv_device (saveQRCodeMapping faults d tbl q m)) = isSupabaseConfigured d"
proof (cases rule: save_cases [where d = d and faults = faults and tbl = tbl and q = q and m = m])
  case (remote ev d')
  with gce_fields [OF remote(3)] show ?thesis by simp
qed simp_all


lemma save_device_event:
  "fst (getCurrentEventId (sv_device (saveQRCodeMapping faults d tbl q m))) =
     fst (getCurrentEventId d)"
proof (cases rule: save_cases [where d = d and faults = faults and tbl = tbl and q = q and m = m])
  case quota
  then show ?thesis by simp
next
  case local
  obtain ev d' where g: "getCurrentEventId d = (ev, d')" by (cases "getCurrentEventId d")
  from local show ?thesis by (simp add: gce_map_update [OF g] g)
next
  case (remote ev d')
  then show ?thesis by (simp add: gce_map_update [OF gce_again [OF remote(3)]])
qed


lemma save_log:
  "\<not> setItem_throws d \<Longrightarrow>
   \<exists>rest. sv_log (saveQRCodeMapping faults d tbl q m) = LocalSet q m # rest"
  by (cases rule: save_cases [where d = d and faults = faults and tbl = tbl and q = q and m = m]) simp_all

lemma save_log_tail:
  assumes "e \<in> set (tl (sv_log (saveQRCodeMapping faults d tbl q m)))"
  shows "(\<exists>n. e = RemoteUpsert n) \<or> (\<exists>n. e = Sleep n)"
proof (cases rule: save_cases [where d = d and faults = faults and tbl = tbl and q = q and m = m])
  case quota
  with assms show ?thesis by simp
next
  case local
  with assms show ?thesis by simp
next
  case (remote ev d')
  with assms persist_log_effects [of e faults q m ev 1 tbl] show ?thesis
    by (simp del: One_nat_def)
qed

lemma js_assign_get:
  "k \<noteq> ''__proto__'' \<or> m k \<noteq> None \<Longrightarrow> js_assign m k v k = Some v"
  by (auto simp: js_assign_def)

subsection \<open>The table under upsert\<close>








subsection \<open>The query and the chain\<close>

lemma maybeSingle_match:
  assumes "qr_maybeSingle r q ev = Data (Some row)"
  shows "qr_fault r = Fine \<and> row \<in> set (qr_mappings r) \<and> qr_code_id row = q \<and>
         (ev \<noteq> [] \<longrightarrow> event_id row = Some ev)"
proof -
  from assms have f: "qr_fault r = Fine"
    by (auto simp: qr_maybeSingle_def split: fault.splits)
  with assms have "filter (qr_filter q ev) (qr_mappings r) = [row]"
    by (auto simp: qr_maybeSingle_def split: list.splits)
  then have "row \<in> set (filter (qr_filter q ev) (qr_mappings r))" by simp
  with f show ?thesis by (auto simp: qr_filter_def)
qed


lemma maybeSingle_none:
  "\<forall>x \<in> set (qr_mappings r). qr_code_id x \<noteq> q \<Longrightarrow> qr_maybeSingle r q ev \<noteq> Data (Some row)"
  using maybeSingle_match by blast

lemma resolve_configured:
  assumes "getCurrentEventId d = (ev, d1)" "isSupabaseConfigured d"
  shows "getMemberIdFromQRCode d r q =
     (case qr_maybeSingle r q ev of
        Data (Some row) \<Rightarrow>
          if member_id row \<noteq> []
          then (Some (MemberId (member_id row)), d1,
                [RemoteSelect q (if ev \<noteq> [] then Some ev else None)])
          else (localLookup d q, d1,
                [RemoteSelect q (if ev \<noteq> [] then Some ev else None), LocalGet q])
      | _ \<Rightarrow> (localLookup d q, d1,
                [RemoteSelect q (if ev \<noteq> [] then Some ev else None), LocalGet q]))"
  using assms gce_fields [OF assms(1)]
  by (simp add: getMemberIdFromQRCode_def localLookup_def Let_def
      split: select_result.splits option.splits)

lemma resolve_local_only:
  "\<not> isSupabaseConfigured d \<Longrightarrow> getMemberIdFromQRCode d r q = (localLookup d q, d, [LocalGet q])"
  by (simp add: getMemberIdFromQRCode_def)


lemma resolve_fallback:
  assumes "getCurrentEventId d = (ev, d1)" "isSupabaseConfigured d"
    "\<forall>row. qr_maybeSingle r q ev \<noteq> Data (Some row)"
  shows "getMemberIdFromQRCode d r q =
     (localLookup d q, d1, [RemoteSelect q (if ev \<noteq> [] then Some ev else None), LocalGet q])"
proof (cases "qr_maybeSingle r q ev")
  case (Data x)
  with assms(3) have "x = None" by (cases x) auto
  with Data show ?thesis by (simp add: resolve_configured [OF assms(1,2)])
next
  case (SelError e)
  then show ?thesis by (simp add: resolve_configured [OF assms(1,2)])
next
  case SelThrew
  then show ?thesis by (simp add: resolve_configured [OF assms(1,2)])
qed



lemma resolve_cached:
  assumes "\<not> isSupabaseConfigured d \<or>
           (\<forall>row. qr_maybeSingle r q (fst (getCurrentEventId d)) \<noteq> Data (Some row))"
    and "ls_qr_code_member_mapping d q = Some v" "v \<noteq> []"
  shows "fst (getMemberIdFromQRCode d r q) = Some (MemberId v)"
proof (cases "isSupabaseConfigured d")
  case False
  with assms(2,3) show ?thesis by (simp add: resolve_local_only localLookup_def)
next
  case True
  obtain ev d1 where g: "getCurrentEventId d = (ev, d1)" by (cases "getCurrentEventId d")
  from assms(1) True g have "\<forall>row. qr_maybeSingle r q ev \<noteq> Data (Some row)" by simp
  from resolve_fallback [OF g True this] assms(2,3) show ?thesis by (simp add: localLookup_def)
qed


lemma resolve_dev:
  "fst (snd (getMemberIdFromQRCode d r q)) =
     (if isSupabaseConfigured d then snd (getCurrentEventId d) else d)"
proof (cases "isSupabaseConfigured d")
  case False
  then show ?thesis by (simp add: resolve_local_only)
next
  case True
  obtain ev d1 where g: "getCurrentEventId d = (ev, d1)" by (cases "getCurrentEventId d")
  from True show ?thesis
    by (simp add: resolve_configured [OF g True] g split: select_result.splits option.splits)
qed

lemma localLookup_normal: "localLookup (snd (getCurrentEventId d)) q = localLookup d q"
  by (simp add: localLookup_def gce_snd_fields)

lemma resolve_normal:
  "fst (getMemberIdFromQRCode (snd (getCurrentEventId d)) r q) = fst (getMemberIdFromQRCode d r q)"
proof (cases "isSupabaseConfigured d")
  case False
  then show ?thesis by (simp add: resolve_local_only gce_snd_fields localLookup_normal)
next
  case True
  obtain ev d1 where g: "getCurrentEventId d = (ev, d1)" by (cases "getCurrentEventId d")
  have g1: "getCurrentEventId d1 = (ev, d1)" by (rule gce_again [OF g])
  have c1: "isSupabaseConfigured d1" using gce_fields [OF g] True by simp
  have "localLookup d1 q = localLookup d q" using localLookup_normal [of d q] g by simp
  then show ?thesis
    by (simp add: g resolve_configured [OF g True] resolve_configured [OF g1 c1]
        split: select_result.splits option.splits)
qed

lemma resolve_dev_normal:
  "fst (snd (getMemberIdFromQRCode (snd (getCurrentEventId d)) r q)) = snd (getCurrentEventId d)"
  by (simp add: resolve_dev gce_snd_again)


subsection \<open>The member lookup\<close>

text \<open>
  The device that a lookup returns differs from the one it was given at most in the cached
  event id, and a lookup on either gives the same result. This puts
  \<^verbatim>\<open>findMemberByQRCodeId\<close> and its two callers into a form without device passing.
\<close>

lemma gtm_snd: "snd (getTajneedMembers d r) = snd (getCurrentEventId d)"
  by (cases "getCurrentEventId d") (simp add: getTajneedMembers_def split: fault.splits)

lemma gtm_fst:
  "fst (getTajneedMembers d r) =
     (if fst (getCurrentEventId d) = [] then []
      else if \<not> isSupabaseConfigured d
      then filter (\<lambda>m. m_eventId m = fst (getCurrentEventId d)) (ls_tajneed_members d)
      else (case members_fault r of
              Fine \<Rightarrow> filter (\<lambda>m. m_eventId m = fst (getCurrentEventId d)) (tajneed_members r)
            | Fails e \<Rightarrow> []
            | Throws \<Rightarrow> []))"
proof -
  obtain ev d1 where g: "getCurrentEventId d = (ev, d1)" by (cases "getCurrentEventId d")
  from gce_fields [OF g] show ?thesis
    by (simp add: getTajneedMembers_def g split: fault.splits)
qed

lemma gtm_normal: "getTajneedMembers (snd (getCurrentEventId d)) r = getTajneedMembers d r"
  by (rule prod_eqI) (simp_all add: gtm_snd gtm_fst gce_snd_again gce_snd_fields split: fault.splits)

lemma gtm_mem:
  assumes "m \<in> set (fst (getTajneedMembers d r))"
  shows "m_eventId m = fst (getCurrentEventId d) \<and> fst (getCurrentEventId d) \<noteq> [] \<and>
         m \<in> set (if isSupabaseConfigured d then tajneed_members r else ls_tajneed_members d)"
  using assms by (auto simp: gtm_fst split: if_splits fault.splits)

lemma find_Some_mem: "find P xs = Some x \<Longrightarrow> x \<in> set xs \<and> P x"
  by (induction xs) (auto split: if_splits)

lemma find_unfold:
  "findMemberByQRCodeId d env t q =
     (case find (\<lambda>m. m_id m = q) (fst (getTajneedMembers d (env t))) of
        Some m \<Rightarrow> \<lparr>fr_member = Some m, fr_device = snd (getCurrentEventId d), fr_time = t\<rparr>
      | None \<Rightarrow>
          (case fst (getMemberIdFromQRCode d (env t) q) of
             Some mappedId \<Rightarrow>
               (case find (\<lambda>m. MemberId (m_id m) = mappedId)
                       (fst (getTajneedMembers d (env t))) of
                  Some m \<Rightarrow>
                    \<lparr>fr_member = Some m, fr_device = snd (getCurrentEventId d), fr_time = t\<rparr>
                | None \<Rightarrow>
                    \<lparr>fr_member = find (\<lambda>m. MemberId (m_id m) = mappedId)
                                   (fst (getTajneedMembers d (env (t + 200)))),
                     fr_device = snd (getCurrentEventId d), fr_time = t + 200\<rparr>)
           | None \<Rightarrow>
               \<lparr>fr_member = find (\<lambda>m. m_id m = q) (fst (getTajneedMembers d (env (t + 200)))),
                fr_device = snd (getCurrentEventId d), fr_time = t + 200\<rparr>))"
proof -
  let ?nd = "snd (getCurrentEventId d)"
  have a: "getTajneedMembers d (env t) = (fst (getTajneedMembers d (env t)), ?nd)"
    by (rule prod_eqI) (simp_all add: gtm_snd)
  obtain x lg where
    b: "getMemberIdFromQRCode ?nd (env t) q = (x, ?nd, lg)"
    using resolve_dev_normal [of d "env t" q]
    by (cases "getMemberIdFromQRCode ?nd (env t) q") auto
  have x: "x = fst (getMemberIdFromQRCode d (env t) q)"
    using resolve_normal [of d "env t" q] b by simp
  have c: "getTajneedMembers ?nd (env (t + 200)) =
      (fst (getTajneedMembers d (env (t + 200))), ?nd)"
    by (rule prod_eqI) (simp_all add: gtm_normal gtm_snd)
  show ?thesis
    unfolding findMemberByQRCodeId_def
    by (subst a) (simp add: b c x [symmetric] split: option.splits)
qed

lemma find_device: "fr_device (findMemberByQRCodeId d env t q) = snd (getCurrentEventId d)"
  by (simp add: find_unfold split: option.splits)

lemma find_normal:
  "findMemberByQRCodeId (snd (getCurrentEventId d)) env t q = findMemberByQRCodeId d env t q"
  unfolding find_unfold [of "snd (getCurrentEventId d)"] find_unfold [of d]
    gtm_normal resolve_normal gce_snd_again snd_conv ..

lemma find_none_time:
  "fr_member (findMemberByQRCodeId d env t q) = None \<Longrightarrow>
   fr_time (findMemberByQRCodeId d env t q) = t + 200"
  by (auto simp: find_unfold split: option.splits)

lemma find_member_source:
  assumes "fr_member (findMemberByQRCodeId d env t q) = Some m"
  shows "(m \<in> set (fst (getTajneedMembers d (env t))) \<or>
          m \<in> set (fst (getTajneedMembers d (env (t + 200))))) \<and>
         (m_id m = q \<or> Some (MemberId (m_id m)) = fst (getMemberIdFromQRCode d (env t) q))"
  using assms
  by (auto simp: find_unfold split: option.splits dest!: find_Some_mem)

lemma scan_unfold:
  "handleQRScan d env t q =
     (if fr_member (findMemberByQRCodeId d env t q) \<noteq> None
      then \<lparr>sc_member = fr_member (findMemberByQRCodeId d env t q),
            sc_device = snd (getCurrentEventId d),
            sc_time = fr_time (findMemberByQRCodeId d env t q), sc_polls = 1, sc_waits = []\<rparr>
      else if fr_member (findMemberByQRCodeId d env (t + 500) q) \<noteq> None
      then \<lparr>sc_member = fr_member (findMemberByQRCodeId d env (t + 500) q),
            sc_device = snd (getCurrentEventId d),
            sc_time = fr_time (findMemberByQRCodeId d env (t + 500) q),
            sc_polls = 2, sc_waits = [300]\<rparr>
      else \<lparr>sc_member = fr_member (findMemberByQRCodeId d env (t + 1200) q),
            sc_device = snd (getCurrentEventId d),
            sc_time = fr_time (findMemberByQRCodeId d env (t + 1200) q),
            sc_polls = 3, sc_waits = [300, 500]\<rparr>)"
proof (cases "fr_member (findMemberByQRCodeId d env t q) = None")
  case False
  then show ?thesis by (simp add: handleQRScan_def Let_def find_device)
next
  case n1: True
  have t1: "fr_time (findMemberByQRCodeId d env t q) + 300 = t + 500"
    using find_none_time [OF n1] by simp
  show ?thesis
  proof (cases "fr_member (findMemberByQRCodeId d env (t + 500) q) = None")
    case False
    with n1 show ?thesis
      by (simp add: handleQRScan_def Let_def find_device find_normal t1)
  next
    case n2: True
    have t2: "fr_time (findMemberByQRCodeId d env (t + 500) q) + 500 = t + 1200"
      using find_none_time [OF n2] by simp
    from n1 n2 show ?thesis
      by (simp add: handleQRScan_def Let_def find_device find_normal t1 t2)
  qed
qed

lemma verify_unfold:
  "handleSaveMember_verify d env t q =
     (if fr_member (findMemberByQRCodeId d env (t + 300) q) \<noteq> None
      then \<lparr>sc_member = fr_member (findMemberByQRCodeId d env (t + 300) q),
            sc_device = snd (getCurrentEventId d),
            sc_time = fr_time (findMemberByQRCodeId d env (t + 300) q),
            sc_polls = 1, sc_waits = [300]\<rparr>
      else \<lparr>sc_member = fr_member (findMemberByQRCodeId d env (t + 1000) q),
            sc_device = snd (getCurrentEventId d),
            sc_time = fr_time (findMemberByQRCodeId d env (t + 1000) q),
            sc_polls = 2, sc_waits = [300, 500]\<rparr>)"
proof (cases "fr_member (findMemberByQRCodeId d env (t + 300) q) = None")
  case False
  then show ?thesis by (simp add: handleSaveMember_verify_def Let_def find_device)
next
  case n1: True
  have t1: "fr_time (findMemberByQRCodeId d env (t + 300) q) + 500 = t + 1000"
    using find_none_time [OF n1] by simp
  from n1 show ?thesis
    by (simp add: handleSaveMember_verify_def Let_def find_device find_normal t1)
qed

subsection \<open>The examples\<close>

lemma isRetryable_timeout: "isRetryable timeout_error"
  by (simp add: isRetryable_def message_includes_def timeout_error_def)

lemma not_retryable_permission: "\<not> isRetryable permission_error"
  by (simp add: isRetryable_def message_includes_def permission_error_def)

lemma isRetryable_undefined_table: "isRetryable undefined_table_error"
  by (simp add: isRetryable_def undefined_table_error_def)

lemma persist_always_Fine:
  "persistQRMappingToSupabase True (always_fault Fine) q m ev a tbl =
     \<lparr>pr_error = None, pr_table = upsert (payload q m ev) tbl, pr_log = [RemoteUpsert a]\<rparr>"
  by (rule persist_Fine) (simp add: always_fault_def)

lemma persist_always_timeout:
  "persistQRMappingToSupabase True (always_fault (Fails timeout_error)) q m ev 1 tbl =
     \<lparr>pr_error = Some (PersistFailed 3 timeout_error), pr_table = tbl,
      pr_log = [RemoteUpsert 1, Sleep 100, RemoteUpsert 2, Sleep 200, RemoteUpsert 3]\<rparr>"
  by (rule persist_exhaust [where ?e1.0 = timeout_error and ?e2.0 = timeout_error])
     (simp_all add: always_fault_def isRetryable_timeout)

lemma persist_always_denied:
  "persistQRMappingToSupabase True (always_fault (Fails permission_error)) q m ev a tbl =
     \<lparr>pr_error = Some (PersistFailed a permission_error), pr_table = tbl,
      pr_log = [RemoteUpsert a]\<rparr>"
  by (rule persist_Fails_stop) (simp_all add: always_fault_def not_retryable_permission)

lemma gce_deviceA: "getCurrentEventId deviceA = (''eventA'', deviceA)"
  by (simp add: getCurrentEventId_def deviceA_def)

lemma conf_deviceA: "isSupabaseConfigured deviceA"
  by (simp add: deviceA_def)

lemma quota_deviceA: "\<not> setItem_throws deviceA"
  by (simp add: deviceA_def)

lemma empty_deviceA: "ls_qr_code_member_mapping deviceA = Map.empty"
  by (simp add: deviceA_def)

lemma lagging_first:
  "findMemberByQRCodeId deviceA lagging_store 0 ''X'' =
     \<lparr>fr_member = None, fr_device = deviceA, fr_time = 200\<rparr>"
  by (simp add: findMemberByQRCodeId_def getTajneedMembers_def getMemberIdFromQRCode_def
      getCurrentEventId_def deviceA_def lagging_store_def healthy_def member42_def
      qr_maybeSingle_def qr_filter_def localLookup_def)

lemma lagging_later:
  "100 \<le> u \<Longrightarrow> fr_member (findMemberByQRCodeId deviceA lagging_store u ''X'') = Some member42"
  by (simp add: findMemberByQRCodeId_def getTajneedMembers_def getMemberIdFromQRCode_def
      getCurrentEventId_def deviceA_def lagging_store_def healthy_def member42_def
      qr_maybeSingle_def qr_filter_def localLookup_def)

lemma empty_store_find:
  "fr_member (findMemberByQRCodeId deviceA (steady (healthy [] [])) u ''X'') = None"
  by (simp add: findMemberByQRCodeId_def getTajneedMembers_def getMemberIdFromQRCode_def
      getCurrentEventId_def deviceA_def steady_def healthy_def
      qr_maybeSingle_def qr_filter_def localLookup_def)

lemma saved_empty_eq:
  "saved_empty =
     \<lparr>sv_thrown = None, sv_warned = None,
      sv_device = deviceLocal\<lparr>ls_qr_code_member_mapping := [''X'' \<mapsto> []]\<rparr>,
      sv_table = [], sv_log = [LocalSet ''X'' []]\<rparr>"
  by (simp add: saved_empty_def saveQRCodeMapping_def deviceLocal_def deviceA_def js_assign_def)

lemma saved_proto_eq:
  "saved_proto =
     \<lparr>sv_thrown = None, sv_warned = None, sv_device = deviceLocal,
      sv_table = [], sv_log = [LocalSet ''__proto__'' ''m1'']\<rparr>"
  by (simp add: saved_proto_def saveQRCodeMapping_def deviceLocal_def deviceA_def js_assign_def)

lemma saved_over_quota_eq:
  "saved_over_quota =
     \<lparr>sv_thrown = Some StorageThrew, sv_warned = None, sv_device = deviceFull,
      sv_table = [], sv_log = []\<rparr>"
  by (simp add: saved_over_quota_def saveQRCodeMapping_def deviceFull_def deviceA_def)

lemma resolve_deviceLocal:
  "getMemberIdFromQRCode (deviceLocal\<lparr>ls_qr_code_member_mapping := f\<rparr>) r q =
     (localLookup (deviceLocal\<lparr>ls_qr_code_member_mapping := f\<rparr>) q,
      deviceLocal\<lparr>ls_qr_code_member_mapping := f\<rparr>, [LocalGet q])"
  by (simp add: getMemberIdFromQRCode_def deviceLocal_def)

subsection \<open>C1: one token under two events\<close>

text \<open>
  C1. The upsert is keyed by \<^verbatim>\<open>qr_code_id\<close> alone, the primary key of the table. After the
  token \<open>X\<close> is registered for \<open>m1\<close> in event A and then for \<open>m2\<close> in event B, the table
  holds one row, the one of event B. Back in event A the remote query, which does filter by
  the event, finds nothing; the registering device answers \<open>m2\<close> from its local cache,
  and a device with an empty cache finds no mapping at all.
\<close>

theorem same_token_two_events_one_row:
  "sv_table persisted_in_A =
     [\<lparr>qr_code_id = ''X'', member_id = ''m1'', event_id = Some ''eventA''\<rparr>] \<and>
   sv_table persisted_in_B =
     [\<lparr>qr_code_id = ''X'', member_id = ''m2'', event_id = Some ''eventB''\<rparr>] \<and>
   fst (getMemberIdFromQRCode (switchEvent ''eventA'' (sv_device persisted_in_B))
          (healthy (sv_table persisted_in_B) []) ''X'') = Some (MemberId ''m2'') \<and>
   fst (getMemberIdFromQRCode deviceA (healthy (sv_table persisted_in_B) []) ''X'') = None \<and>
   fst (getMemberIdFromQRCode (sv_device persisted_in_B)
          (healthy (sv_table persisted_in_B) []) ''X'') = Some (MemberId ''m2'')"
  by (simp add: persisted_in_B_def persisted_in_A_def saveQRCodeMapping_def deviceA_def
      getCurrentEventId_def switchEvent_def setCurrentEventId_def persist_always_Fine
      upsert_def payload_def getMemberIdFromQRCode_def qr_maybeSingle_def qr_filter_def
      healthy_def localLookup_def js_assign_def object_prototype_names_def Let_def
      del: One_nat_def)

subsection \<open>C2: what the caller of saveQRCodeMapping observes\<close>

text \<open>
  C2. When Supabase is configured and no attempt is accepted (a terminal error, or the
  retries exhausted), \<^verbatim>\<open>persistQRMappingToSupabase\<close> throws to its caller
  \<^verbatim>\<open>saveQRCodeMapping\<close>, which catches the error and hands it to \<^verbatim>\<open>console.warn\<close>;
  provided the local write did not throw, the promise of \<^verbatim>\<open>saveQRCodeMapping\<close> then
  resolves. The outcome of that promise is the same for any two behaviours of the remote
  store: its caller cannot tell whether the remote write succeeded.
\<close>

theorem remote_outcome_not_observable:
  "sv_thrown (saveQRCodeMapping faults d tbl qrCodeId memberId) =
     sv_thrown (saveQRCodeMapping faults' d tbl qrCodeId memberId) \<and>
   (\<not> setItem_throws d \<and> isSupabaseConfigured d \<and>
    faults 1 \<noteq> Fine \<and> faults 2 \<noteq> Fine \<and> faults 3 \<noteq> Fine \<longrightarrow>
      pr_error (persistQRMappingToSupabase True faults qrCodeId memberId
                  (fst (getCurrentEventId d)) 1 tbl) \<noteq> None \<and>
      sv_warned (saveQRCodeMapping faults d tbl qrCodeId memberId) =
        pr_error (persistQRMappingToSupabase True faults qrCodeId memberId
                    (fst (getCurrentEventId d)) 1 tbl) \<and>
      sv_thrown (saveQRCodeMapping faults d tbl qrCodeId memberId) = None)"
proof (intro conjI impI)
  show "sv_thrown (saveQRCodeMapping faults d tbl qrCodeId memberId) =
     sv_thrown (saveQRCodeMapping faults' d tbl qrCodeId memberId)"
  proof (cases "setItem_throws d")
    case True
    then show ?thesis by (simp add: save_quota)
  next
    case nt: False
    show ?thesis
    proof (cases "isSupabaseConfigured d")
      case False
      with nt show ?thesis by (simp add: save_local_only)
    next
      case True
      obtain ev d' where g: "getCurrentEventId d = (ev, d')" by (cases "getCurrentEventId d")
      show ?thesis by (simp add: save_configured [OF g True nt])
    qed
  qed
next
  assume h: "\<not> setItem_throws d \<and> isSupabaseConfigured d \<and>
    faults 1 \<noteq> Fine \<and> faults 2 \<noteq> Fine \<and> faults 3 \<noteq> Fine"
  obtain ev d' where g: "getCurrentEventId d = (ev, d')" by (cases "getCurrentEventId d")
  from h have s: "saveQRCodeMapping faults d tbl qrCodeId memberId =
     \<lparr>sv_thrown = None,
      sv_warned = pr_error (persistQRMappingToSupabase True faults qrCodeId memberId ev 1 tbl),
      sv_device = d'\<lparr>ls_qr_code_member_mapping :=
        js_assign (ls_qr_code_member_mapping d) qrCodeId memberId\<rparr>,
      sv_table = pr_table (persistQRMappingToSupabase True faults qrCodeId memberId ev 1 tbl),
      sv_log = LocalSet qrCodeId memberId #
        pr_log (persistQRMappingToSupabase True faults qrCodeId memberId ev 1 tbl)\<rparr>"
    by (intro save_configured [OF g]) simp_all
  from h persist_never_fine [of faults qrCodeId memberId ev tbl] g
  show "pr_error (persistQRMappingToSupabase True faults qrCodeId memberId
                  (fst (getCurrentEventId d)) 1 tbl) \<noteq> None"
    by (simp del: One_nat_def)
  show "sv_warned (saveQRCodeMapping faults d tbl qrCodeId memberId) =
        pr_error (persistQRMappingToSupabase True faults qrCodeId memberId
                    (fst (getCurrentEventId d)) 1 tbl)"
    by (simp add: s g del: One_nat_def)
  show "sv_thrown (saveQRCodeMapping faults d tbl qrCodeId memberId) = None"
    by (simp add: s)
qed

theorem remote_outcome_not_observable_witness:
  "\<not> setItem_throws deviceA \<and> isSupabaseConfigured deviceA \<and>
   sv_thrown (saveQRCodeMapping (always_fault (Fails permission_error)) deviceA [] ''SURPLUS-001''
     ''m-42'') =
   sv_thrown (saveQRCodeMapping (always_fault Fine) deviceA [] ''SURPLUS-001'' ''m-42'') \<and>
   sv_thrown (saveQRCodeMapping (always_fault (Fails permission_error)) deviceA [] ''SURPLUS-001''
     ''m-42'') = None \<and>
   sv_warned (saveQRCodeMapping (always_fault (Fails permission_error)) deviceA [] ''SURPLUS-001''
     ''m-42'') = Some (PersistFailed 1 permission_error)"
  using remote_outcome_not_observable [of "always_fault (Fails permission_error)" deviceA "[]"
      "''SURPLUS-001''" "''m-42''" "always_fault Fine"]
  by (auto simp add: always_fault_def conf_deviceA quota_deviceA gce_deviceA
      persist_always_denied simp del: One_nat_def)

text \<open>
  A permission error is thrown by the writer on the first attempt, and three timeouts
  exhaust the retries; in both cases \<^verbatim>\<open>saveQRCodeMapping\<close> resolves, as it does when the
  store accepts the write. The promise rejects only when \<^verbatim>\<open>setItem\<close> throws in the local
  write, before any remote attempt.
\<close>

theorem remote_failure_swallowed_counterexample:
  "pr_error (persistQRMappingToSupabase True (always_fault (Fails permission_error))
      ''SURPLUS-001'' ''m-42'' ''eventA'' 1 []) = Some (PersistFailed 1 permission_error) \<and>
   sv_thrown (saveQRCodeMapping (always_fault (Fails permission_error)) deviceA []
      ''SURPLUS-001'' ''m-42'') = None \<and>
   pr_error (persistQRMappingToSupabase True (always_fault (Fails timeout_error))
      ''SURPLUS-001'' ''m-42'' ''eventA'' 1 []) = Some (PersistFailed 3 timeout_error) \<and>
   sv_thrown (saveQRCodeMapping (always_fault (Fails timeout_error)) deviceA []
      ''SURPLUS-001'' ''m-42'') = None \<and>
   sv_thrown (saveQRCodeMapping (always_fault Fine) deviceA [] ''SURPLUS-001'' ''m-42'') = None \<and>
   sv_thrown saved_over_quota = Some StorageThrew \<and> sv_log saved_over_quota = []"
  by (simp add: persist_always_timeout persist_always_denied persist_always_Fine
      save_configured [OF gce_deviceA conf_deviceA quota_deviceA] saved_over_quota_eq
      del: One_nat_def)

subsection \<open>C3: attempts and delays when every attempt fails retryably\<close>

text \<open>
  C3. When every attempt fails with a retryable error, the writer is to make three attempts
  with waits of 100, 200 and 400 ms, and the comment in the code announces these waits. The
  code waits only where \<^verbatim>\<open>attempt < MAX_ATTEMPTS\<close>: with three timeouts in a row it makes
  three attempts and waits 100 ms and 200 ms, 300 ms in all, and then throws the error
  of the third attempt. A wait of 400 ms never happens.
\<close>

theorem retry_delays_counterexample:
  "delays (pr_log (persistQRMappingToSupabase True (always_fault (Fails timeout_error))
      ''SURPLUS-001'' ''m-42'' ''evt-1'' 1 [])) = [100, 200] \<and>
   delays (pr_log (persistQRMappingToSupabase True (always_fault (Fails timeout_error))
      ''SURPLUS-001'' ''m-42'' ''evt-1'' 1 [])) \<noteq> [100, 200, 400] \<and>
   attempts (pr_log (persistQRMappingToSupabase True (always_fault (Fails timeout_error))
      ''SURPLUS-001'' ''m-42'' ''evt-1'' 1 [])) = 3 \<and>
   pr_error (persistQRMappingToSupabase True (always_fault (Fails timeout_error))
      ''SURPLUS-001'' ''m-42'' ''evt-1'' 1 []) = Some (PersistFailed 3 timeout_error)"
  by (simp add: persist_always_timeout del: One_nat_def)

subsection \<open>C4: which errors are retried\<close>

text \<open>
  C4. A rejected write is retried exactly when its error code is \<^verbatim>\<open>PGRST301\<close> or
  \<^verbatim>\<open>42P01\<close>, or its message contains \<^verbatim>\<open>connection\<close>, \<^verbatim>\<open>timeout\<close> or
  \<^verbatim>\<open>temporarily unavailable\<close>, and fewer than three attempts have been made: then the
  writer waits and makes the next attempt. Every other rejection is thrown on the attempt
  where it occurs, without a wait and without another attempt.
\<close>

theorem retry_classification:
  assumes "faults attempt = Fails e"
  shows "if (err_code e = Some ''PGRST301'' \<or> err_code e = Some ''42P01'' \<or>
             message_includes e ''connection'' \<or> message_includes e ''timeout'' \<or>
             message_includes e ''temporarily unavailable'') \<and> attempt < 3
         then pr_log (persistQRMappingToSupabase True faults qrCodeId memberId eventId attempt tbl) =
                RemoteUpsert attempt # Sleep (backoff attempt) #
                pr_log (persistQRMappingToSupabase True faults qrCodeId memberId eventId
                          (Suc attempt) tbl)
         else persistQRMappingToSupabase True faults qrCodeId memberId eventId attempt tbl =
                \<lparr>pr_error = Some (PersistFailed attempt e), pr_table = tbl,
                 pr_log = [RemoteUpsert attempt]\<rparr>"
proof (cases "isRetryable e \<and> attempt < MAX_ATTEMPTS")
  case True
  then have "persistQRMappingToSupabase True faults qrCodeId memberId eventId attempt tbl =
     (persistQRMappingToSupabase True faults qrCodeId memberId eventId (Suc attempt) tbl)
       \<lparr>pr_log := RemoteUpsert attempt # Sleep (backoff attempt) #
          pr_log (persistQRMappingToSupabase True faults qrCodeId memberId eventId (Suc attempt) tbl)\<rparr>"
    using assms by (intro persist_Fails_retry [where e = e]) simp_all
  then have "pr_log (persistQRMappingToSupabase True faults qrCodeId memberId eventId attempt tbl) =
      RemoteUpsert attempt # Sleep (backoff attempt) #
      pr_log (persistQRMappingToSupabase True faults qrCodeId memberId eventId (Suc attempt) tbl)"
    by simp
  with True show ?thesis by (simp add: isRetryable_def MAX_ATTEMPTS_def)
next
  case False
  then have "persistQRMappingToSupabase True faults qrCodeId memberId eventId attempt tbl =
       \<lparr>pr_error = Some (PersistFailed attempt e), pr_table = tbl,
        pr_log = [RemoteUpsert attempt]\<rparr>"
    using assms by (intro persist_Fails_stop) simp_all
  with False show ?thesis by (simp add: isRetryable_def MAX_ATTEMPTS_def)
qed

theorem retry_classification_witness:
  "persistQRMappingToSupabase True (always_fault (Fails permission_error)) ''SURPLUS-001'' ''m-42''
     ''evt-1'' 1 [] =
     \<lparr>pr_error = Some (PersistFailed 1 permission_error), pr_table = [],
      pr_log = [RemoteUpsert 1]\<rparr> \<and>
   pr_log (persistQRMappingToSupabase True (always_fault (Fails timeout_error)) ''SURPLUS-001''
     ''m-42'' ''evt-1'' 1 []) =
     RemoteUpsert 1 # Sleep 100 #
     pr_log (persistQRMappingToSupabase True (always_fault (Fails timeout_error)) ''SURPLUS-001''
       ''m-42'' ''evt-1'' 2 [])"
  using retry_classification [of "always_fault (Fails permission_error)" 1 permission_error
      "''SURPLUS-001''" "''m-42''" "''evt-1''" "[]"]
    retry_classification [of "always_fault (Fails timeout_error)" 1 timeout_error
      "''SURPLUS-001''" "''m-42''" "''evt-1''" "[]"]
  by (simp add: always_fault_def permission_error_def timeout_error_def message_includes_def
      backoff_def BASE_DELAY_def del: One_nat_def)

text \<open>
  An undefined-table error (\<^verbatim>\<open>42P01\<close>), which is a schema error, is retried: it is
  thrown after the third attempt only.
\<close>

theorem schema_error_retried_counterexample:
  "pr_error (persistQRMappingToSupabase True (always_fault (Fails undefined_table_error))
      ''SURPLUS-001'' ''m-42'' ''evt-1'' 1 []) = Some (PersistFailed 3 undefined_table_error) \<and>
   attempts (pr_log (persistQRMappingToSupabase True (always_fault (Fails undefined_table_error))
      ''SURPLUS-001'' ''m-42'' ''evt-1'' 1 [])) = 3"
  by (simp add: persist_exhaust [where ?e1.0 = undefined_table_error
        and ?e2.0 = undefined_table_error and ?e3.0 = undefined_table_error]
      always_fault_def isRetryable_undefined_table del: One_nat_def)

subsection \<open>C5: the order of the resolution chain\<close>




subsection \<open>C6: persist, then resolve\<close>




subsection \<open>C7: the reconciliation loop\<close>

text \<open>
  C7. The polling is done by the callers of \<^verbatim>\<open>findMemberByQRCodeId\<close>. The lookup of
  \<^verbatim>\<open>handleQRScan\<close> makes at most three calls, waits 300 ms after the first and 500 ms
  after the second when they find nothing, returns the member of the first call that finds
  one, and ends with no member after the third. A call that finds nothing has itself waited
  200 ms, so the calls start 0, 500 and 1200 ms after the scan, and the lookup gives up
  after 1400 ms. The check of \<^verbatim>\<open>handleSaveMember\<close> after a registration makes at most
  two calls, 300 ms and 1000 ms after the save. Nothing is thrown: every outcome is a value.
\<close>

theorem reconciliation_loop:
  "(fr_member (findMemberByQRCodeId d env t q) = None \<longrightarrow>
      fr_time (findMemberByQRCodeId d env t q) = t + 200) \<and>
   sc_polls (handleQRScan d env t q) \<le> 3 \<and>
   (fr_member (findMemberByQRCodeId d env t q) \<noteq> None \<longrightarrow>
      sc_member (handleQRScan d env t q) = fr_member (findMemberByQRCodeId d env t q) \<and>
      sc_polls (handleQRScan d env t q) = 1 \<and> sc_waits (handleQRScan d env t q) = []) \<and>
   (fr_member (findMemberByQRCodeId d env t q) = None \<and>
    fr_member (findMemberByQRCodeId d env (t + 500) q) \<noteq> None \<longrightarrow>
      sc_member (handleQRScan d env t q) = fr_member (findMemberByQRCodeId d env (t + 500) q) \<and>
      sc_polls (handleQRScan d env t q) = 2 \<and> sc_waits (handleQRScan d env t q) = [300]) \<and>
   (fr_member (findMemberByQRCodeId d env t q) = None \<and>
    fr_member (findMemberByQRCodeId d env (t + 500) q) = None \<longrightarrow>
      sc_member (handleQRScan d env t q) = fr_member (findMemberByQRCodeId d env (t + 1200) q) \<and>
      sc_polls (handleQRScan d env t q) = 3 \<and> sc_waits (handleQRScan d env t q) = [300, 500]) \<and>
   (sc_member (handleQRScan d env t q) = None \<longrightarrow>
      sc_polls (handleQRScan d env t q) = 3 \<and> sc_time (handleQRScan d env t q) = t + 1400) \<and>
   (fr_member (findMemberByQRCodeId d env (t + 300) q) \<noteq> None \<longrightarrow>
      sc_member (handleSaveMember_verify d env t q) =
        fr_member (findMemberByQRCodeId d env (t + 300) q) \<and>
      sc_polls (handleSaveMember_verify d env t q) = 1 \<and>
      sc_waits (handleSaveMember_verify d env t q) = [300]) \<and>
   (fr_member (findMemberByQRCodeId d env (t + 300) q) = None \<longrightarrow>
      sc_member (handleSaveMember_verify d env t q) =
        fr_member (findMemberByQRCodeId d env (t + 1000) q) \<and>
      sc_polls (handleSaveMember_verify d env t q) = 2 \<and>
      sc_waits (handleSaveMember_verify d env t q) = [300, 500])"
proof -
  have "fr_time (findMemberByQRCodeId d env (t + 1200) q) = t + 1400"
    if "fr_member (findMemberByQRCodeId d env (t + 1200) q) = None"
    using find_none_time [OF that] by simp
  then show ?thesis by (simp add: scan_unfold verify_unfold find_none_time)
qed

theorem reconciliation_loop_witness:
  "fr_member (findMemberByQRCodeId deviceA lagging_store 0 ''X'') = None \<and>
   sc_member (handleQRScan deviceA lagging_store 0 ''X'') = Some member42 \<and>
   sc_polls (handleQRScan deviceA lagging_store 0 ''X'') = 2 \<and>
   sc_waits (handleQRScan deviceA lagging_store 0 ''X'') = [300] \<and>
   sc_member (handleQRScan deviceA (steady (healthy [] [])) 0 ''X'') = None \<and>
   sc_polls (handleQRScan deviceA (steady (healthy [] [])) 0 ''X'') = 3 \<and>
   sc_waits (handleQRScan deviceA (steady (healthy [] [])) 0 ''X'') = [300, 500]"
  using reconciliation_loop [of deviceA lagging_store 0 "''X''"]
    reconciliation_loop [of deviceA "steady (healthy [] [])" 0 "''X''"]
  by (simp add: lagging_first lagging_later empty_store_find)

text \<open>
  \<^verbatim>\<open>findMemberByQRCodeId\<close> alone resolves the token once. On a device without a local
  mapping, where the remote mapping becomes visible after 100 ms, a call at 0 ms finds
  nothing and returns at 200 ms, although by then the token resolves and a second call
  would find the member. And the check after a registration is exhausted after two calls,
  not three.
\<close>

theorem single_resolve_counterexample:
  "fr_member (findMemberByQRCodeId deviceA lagging_store 0 ''X'') = None \<and>
   fr_time (findMemberByQRCodeId deviceA lagging_store 0 ''X'') = 200 \<and>
   fst (getMemberIdFromQRCode deviceA (lagging_store 200) ''X'') = Some (MemberId ''m-42'') \<and>
   fr_member (findMemberByQRCodeId deviceA lagging_store 200 ''X'') = Some member42 \<and>
   sc_member (handleSaveMember_verify deviceA (steady (healthy [] [])) 0 ''X'') = None \<and>
   sc_polls (handleSaveMember_verify deviceA (steady (healthy [] [])) 0 ''X'') = 2"
  by (simp add: lagging_first lagging_later verify_unfold empty_store_find)
     (simp add: getMemberIdFromQRCode_def
      getCurrentEventId_def deviceA_def lagging_store_def healthy_def
      qr_maybeSingle_def qr_filter_def)

subsection \<open>C8: the local write is the floor\<close>

text \<open>
  C8. On a device whose \<^verbatim>\<open>setItem\<close> does not throw, \<^verbatim>\<open>saveQRCodeMapping\<close> writes to
  the local cache first: the local write heads the effect log, and everything after it is
  a remote attempt or a wait. For a token other than \<^verbatim>\<open>__proto__\<close> the cache then holds
  the mapping, whatever the store did with the remote write. A later
  \<^verbatim>\<open>getMemberIdFromQRCode\<close> returns the non-empty member id from the cache when it takes
  the fallback path, that is when Supabase is not configured or the remote query fails or
  matches no row.
\<close>

theorem local_write_floor:
  "(\<not> setItem_throws d \<longrightarrow>
      sv_log (saveQRCodeMapping faults d tbl qrCodeId memberId) =
        LocalSet qrCodeId memberId #
        tl (sv_log (saveQRCodeMapping faults d tbl qrCodeId memberId))) \<and>
   (\<forall>e \<in> set (tl (sv_log (saveQRCodeMapping faults d tbl qrCodeId memberId))).
      (\<exists>n. e = RemoteUpsert n) \<or> (\<exists>n. e = Sleep n)) \<and>
   (\<not> setItem_throws d \<and> qrCodeId \<noteq> ''__proto__'' \<longrightarrow>
      ls_qr_code_member_mapping (sv_device (saveQRCodeMapping faults d tbl qrCodeId memberId))
        qrCodeId = Some memberId) \<and>
   (\<not> setItem_throws d \<and> qrCodeId \<noteq> ''__proto__'' \<and> memberId \<noteq> [] \<and>
    (\<not> isSupabaseConfigured d \<or>
     (\<forall>row. qr_maybeSingle r qrCodeId (fst (getCurrentEventId d)) \<noteq> Data (Some row))) \<longrightarrow>
      fst (getMemberIdFromQRCode
             (sv_device (saveQRCodeMapping faults d tbl qrCodeId memberId)) r qrCodeId) =
        Some (MemberId memberId))"
proof (intro conjI ballI impI)
  show "sv_log (saveQRCodeMapping faults d tbl qrCodeId memberId) =
     LocalSet qrCodeId memberId # tl (sv_log (saveQRCodeMapping faults d tbl qrCodeId memberId))"
    if "\<not> setItem_throws d"
    using save_log [OF that, of faults tbl qrCodeId memberId] by auto
  show "(\<exists>n. e = RemoteUpsert n) \<or> (\<exists>n. e = Sleep n)"
    if "e \<in> set (tl (sv_log (saveQRCodeMapping faults d tbl qrCodeId memberId)))" for e
    using that by (rule save_log_tail)
  show "ls_qr_code_member_mapping (sv_device (saveQRCodeMapping faults d tbl qrCodeId memberId))
     qrCodeId = Some memberId"
    if "\<not> setItem_throws d \<and> qrCodeId \<noteq> ''__proto__''"
    using that by (simp add: save_device_map js_assign_get)
  show "fst (getMemberIdFromQRCode
             (sv_device (saveQRCodeMapping faults d tbl qrCodeId memberId)) r qrCodeId) =
        Some (MemberId memberId)"
    if h: "\<not> setItem_throws d \<and> qrCodeId \<noteq> ''__proto__'' \<and> memberId \<noteq> [] \<and>
      (\<not> isSupabaseConfigured d \<or>
       (\<forall>row. qr_maybeSingle r qrCodeId (fst (getCurrentEventId d)) \<noteq> Data (Some row)))"
  proof (rule resolve_cached)
    show "ls_qr_code_member_mapping (sv_device (saveQRCodeMapping faults d tbl qrCodeId memberId))
       qrCodeId = Some memberId"
      using h by (simp add: save_device_map js_assign_get)
    show "memberId \<noteq> []" using h by simp
    show "\<not> isSupabaseConfigured (sv_device (saveQRCodeMapping faults d tbl qrCodeId memberId)) \<or>
      (\<forall>row. qr_maybeSingle r qrCodeId
         (fst (getCurrentEventId (sv_device (saveQRCodeMapping faults d tbl qrCodeId memberId)))) \<noteq>
        Data (Some row))"
      using h by (simp add: save_device_conf save_device_event)
  qed
qed

theorem local_write_floor_witness:
  "\<not> setItem_throws deviceA \<and> ''X'' \<noteq> ''__proto__'' \<and>
   sv_warned failed_rewrite = Some (PersistFailed 3 timeout_error) \<and>
   sv_log failed_rewrite =
     [LocalSet ''X'' ''m-new'', RemoteUpsert 1, Sleep 100, RemoteUpsert 2, Sleep 200,
      RemoteUpsert 3] \<and>
   ls_qr_code_member_mapping (sv_device failed_rewrite) ''X'' = Some ''m-new'' \<and>
   fst (getMemberIdFromQRCode (sv_device failed_rewrite)
          \<lparr>qr_mappings = stale_table, tajneed_members = [], qr_fault = Fails timeout_error,
           members_fault = Fine\<rparr> ''X'') = Some (MemberId ''m-new'')"
proof -
  have s: "failed_rewrite =
     \<lparr>sv_thrown = None, sv_warned = Some (PersistFailed 3 timeout_error),
      sv_device = deviceA\<lparr>ls_qr_code_member_mapping :=
        js_assign (ls_qr_code_member_mapping deviceA) ''X'' ''m-new''\<rparr>,
      sv_table = stale_table,
      sv_log = [LocalSet ''X'' ''m-new'', RemoteUpsert 1, Sleep 100, RemoteUpsert 2, Sleep 200,
        RemoteUpsert 3]\<rparr>"
    by (simp add: failed_rewrite_def save_configured [OF gce_deviceA conf_deviceA quota_deviceA]
        persist_always_timeout del: One_nat_def)
  have n: "\<forall>row. qr_maybeSingle
      \<lparr>qr_mappings = stale_table, tajneed_members = [], qr_fault = Fails timeout_error,
       members_fault = Fine\<rparr> ''X'' (fst (getCurrentEventId deviceA)) \<noteq> Data (Some row)"
    by (simp add: qr_maybeSingle_def)
  note t = local_write_floor [of deviceA "always_fault (Fails timeout_error)" stale_table "''X''"
      "''m-new''" "\<lparr>qr_mappings = stale_table, tajneed_members = [],
         qr_fault = Fails timeout_error, members_fault = Fine\<rparr>"]
  from t n
  have "ls_qr_code_member_mapping (sv_device failed_rewrite) ''X'' = Some ''m-new'' \<and>
    fst (getMemberIdFromQRCode (sv_device failed_rewrite)
          \<lparr>qr_mappings = stale_table, tajneed_members = [], qr_fault = Fails timeout_error,
           members_fault = Fine\<rparr> ''X'') = Some (MemberId ''m-new'')"
    by (simp add: failed_rewrite_def quota_deviceA)
  then show ?thesis by (simp add: s quota_deviceA)
qed

text \<open>
  Outside those conditions.
  \<^item> The table already holds a row for the token and the read reaches the store: the
    fallback path is not taken. After three timed-out attempts the cache holds the new
    member, and the read returns the member of the older remote row without reading the
    cache.
  \<^item> \<^verbatim>\<open>setItem\<close> throws: the promise rejects, and the cache holds nothing for the token.
  \<^item> The token is \<^verbatim>\<open>__proto__\<close>: the cache holds nothing for it after the write.
  \<^item> The member id is empty: the cache holds it, and the read returns \<open>None\<close>.
\<close>

theorem local_floor_counterexample:
  "sv_warned failed_rewrite = Some (PersistFailed 3 timeout_error) \<and>
   attempts (sv_log failed_rewrite) = 3 \<and>
   ls_qr_code_member_mapping (sv_device failed_rewrite) ''X'' = Some ''m-new'' \<and>
   getMemberIdFromQRCode (sv_device failed_rewrite) (healthy (sv_table failed_rewrite) []) ''X'' =
     (Some (MemberId ''m-old''), sv_device failed_rewrite, [RemoteSelect ''X'' (Some ''eventA'')]) \<and>
   sv_thrown saved_over_quota = Some StorageThrew \<and>
   ls_qr_code_member_mapping (sv_device saved_over_quota) ''X'' = None \<and>
   ls_qr_code_member_mapping (sv_device saved_proto) ''__proto__'' = None \<and>
   ls_qr_code_member_mapping (sv_device saved_empty) ''X'' = Some [] \<and>
   fst (getMemberIdFromQRCode (sv_device saved_empty) (healthy [] []) ''X'') = None"
proof -
  have 1: "sv_warned failed_rewrite = Some (PersistFailed 3 timeout_error) \<and>
   attempts (sv_log failed_rewrite) = 3 \<and>
   ls_qr_code_member_mapping (sv_device failed_rewrite) ''X'' = Some ''m-new'' \<and>
   getMemberIdFromQRCode (sv_device failed_rewrite) (healthy (sv_table failed_rewrite) []) ''X'' =
     (Some (MemberId ''m-old''), sv_device failed_rewrite, [RemoteSelect ''X'' (Some ''eventA'')])"
    by (simp add: failed_rewrite_def stale_table_def
        save_configured [OF gce_deviceA conf_deviceA quota_deviceA] persist_always_timeout
        del: One_nat_def)
      (simp add: getMemberIdFromQRCode_def getCurrentEventId_def deviceA_def js_assign_def
        qr_maybeSingle_def qr_filter_def healthy_def)
  have 2: "sv_thrown saved_over_quota = Some StorageThrew \<and>
   ls_qr_code_member_mapping (sv_device saved_over_quota) ''X'' = None"
    by (simp add: saved_over_quota_eq deviceFull_def deviceA_def)
  have 3: "ls_qr_code_member_mapping (sv_device saved_proto) ''__proto__'' = None"
    by (simp add: saved_proto_eq deviceLocal_def deviceA_def)
  have 4: "ls_qr_code_member_mapping (sv_device saved_empty) ''X'' = Some [] \<and>
   fst (getMemberIdFromQRCode (sv_device saved_empty) (healthy [] []) ''X'') = None"
    by (simp add: saved_empty_eq resolve_deviceLocal localLookup_def)
  from 1 2 3 4 show ?thesis by simp
qed

subsection \<open>C9: upsert semantics\<close>




subsection \<open>C10: the member lookup is tied to the current event\<close>

text \<open>
  C10. \<^verbatim>\<open>findMemberByQRCodeId\<close> looks only at the members of the current event. It
  returns no member when no event is selected. A member it returns belongs to the current
  event. It returns no member when, at both instants at which it reads the member list, no
  member of the current event has the token or the id the token is mapped to as its id: in
  particular when the mapped member belongs to another event and the token is not itself
  the id of a member of the current event, whatever mapping the stores hold.
\<close>

theorem member_lookup_scope_coupling:
  "(fst (getCurrentEventId d) = [] \<longrightarrow> fr_member (findMemberByQRCodeId d env t q) = None) \<and>
   (\<forall>m. fr_member (findMemberByQRCodeId d env t q) = Some m \<longrightarrow>
      m_eventId m = fst (getCurrentEventId d)) \<and>
   ((\<forall>u \<in> {t, t + 200}.
       \<forall>m \<in> set (if isSupabaseConfigured d then tajneed_members (env u)
                  else ls_tajneed_members d).
         m_eventId m = fst (getCurrentEventId d) \<longrightarrow>
           m_id m \<noteq> q \<and>
           Some (MemberId (m_id m)) \<noteq> fst (getMemberIdFromQRCode d (env t) q)) \<longrightarrow>
      fr_member (findMemberByQRCodeId d env t q) = None)"
proof (intro conjI impI allI)
  show "fr_member (findMemberByQRCodeId d env t q) = None" if "fst (getCurrentEventId d) = []"
  proof (cases "fr_member (findMemberByQRCodeId d env t q)")
    case None
    then show ?thesis .
  next
    case (Some m)
    from find_member_source [OF Some] that gtm_mem [of m d] show ?thesis by blast
  qed
  show "m_eventId m = fst (getCurrentEventId d)"
    if "fr_member (findMemberByQRCodeId d env t q) = Some m" for m
    using find_member_source [OF that] gtm_mem [of m d] by blast
  show "fr_member (findMemberByQRCodeId d env t q) = None"
    if h: "\<forall>u \<in> {t, t + 200}.
       \<forall>m \<in> set (if isSupabaseConfigured d then tajneed_members (env u)
                  else ls_tajneed_members d).
         m_eventId m = fst (getCurrentEventId d) \<longrightarrow>
           m_id m \<noteq> q \<and>
           Some (MemberId (m_id m)) \<noteq> fst (getMemberIdFromQRCode d (env t) q)"
  proof (cases "fr_member (findMemberByQRCodeId d env t q)")
    case None
    then show ?thesis .
  next
    case (Some m)
    from find_member_source [OF Some]
    have id: "m_id m = q \<or> Some (MemberId (m_id m)) = fst (getMemberIdFromQRCode d (env t) q)"
      and src: "m \<in> set (fst (getTajneedMembers d (env t))) \<or>
          m \<in> set (fst (getTajneedMembers d (env (t + 200))))" by simp_all
    from src obtain u where u: "u \<in> {t, t + 200}" "m \<in> set (fst (getTajneedMembers d (env u)))"
      by auto
    from gtm_mem [OF u(2)] h u(1) id show ?thesis by blast
  qed
qed

theorem member_lookup_scope_coupling_witness:
  "fr_member (findMemberByQRCodeId (deviceA_cached\<lparr>currentEventId := None,
       ls_current_event_id := None\<rparr>) (steady crossed_store) 0 ''X'') = None \<and>
   fst (getMemberIdFromQRCode deviceA_cached foreign_store ''X'') = Some (MemberId ''m-77'') \<and>
   fr_member (findMemberByQRCodeId deviceA_cached (steady foreign_store) 0 ''X'') = None"
proof -
  have g: "fst (getCurrentEventId (deviceA_cached\<lparr>currentEventId := None,
       ls_current_event_id := None\<rparr>)) = []"
    by (simp add: getCurrentEventId_def)
  have e: "fst (getCurrentEventId deviceA_cached) = ''eventA''"
    by (simp add: getCurrentEventId_def deviceA_cached_def deviceA_def)
  have c: "isSupabaseConfigured deviceA_cached"
    by (simp add: deviceA_cached_def deviceA_def)
  have r: "fst (getMemberIdFromQRCode deviceA_cached foreign_store ''X'') = Some (MemberId ''m-77'')"
    by (simp add: getMemberIdFromQRCode_def getCurrentEventId_def deviceA_cached_def deviceA_def
        foreign_store_def healthy_def qr_maybeSingle_def qr_filter_def localLookup_def)
  from member_lookup_scope_coupling [of "deviceA_cached\<lparr>currentEventId := None,
       ls_current_event_id := None\<rparr>" "steady crossed_store" 0 "''X''"] g
  have 1: "fr_member (findMemberByQRCodeId (deviceA_cached\<lparr>currentEventId := None,
       ls_current_event_id := None\<rparr>) (steady crossed_store) 0 ''X'') = None" by simp
  from member_lookup_scope_coupling [of deviceA_cached "steady foreign_store" 0 "''X''"]
  have 2: "fr_member (findMemberByQRCodeId deviceA_cached (steady foreign_store) 0 ''X'') = None"
    by (simp add: e c steady_def foreign_store_def healthy_def member77_def)
  from 1 r 2 show ?thesis by simp
qed

text \<open>
  The direct lookup comes first. A token that is the id of a member of the current event
  gives that member, also when the token is mapped to a member of another event.
\<close>

theorem direct_id_counterexample:
  "fst (getMemberIdFromQRCode deviceA_cached crossed_store ''X'') = Some (MemberId ''m-77'') \<and>
   m_id member77 = ''m-77'' \<and> m_eventId member77 = ''eventB'' \<and>
   fst (getCurrentEventId deviceA_cached) = ''eventA'' \<and>
   fr_member (findMemberByQRCodeId deviceA_cached (steady crossed_store) 0 ''X'') = Some memberX"
  by (simp add: findMemberByQRCodeId_def getTajneedMembers_def getMemberIdFromQRCode_def
      getCurrentEventId_def deviceA_def deviceA_cached_def crossed_store_def steady_def
      healthy_def memberX_def member77_def qr_maybeSingle_def qr_filter_def localLookup_def)

end
